theory Spec2Isabelle
  imports Complex_Main
begin

section \<open>Strings and numbers of the host language\<close>

text \<open>
  A string is a list of UTF-16 code units below 256 (the Latin-1 range), one \<open>char\<close> per
  code unit. A stored product ID and the ID counter are integers, \<open>int\<close>; they start at
  1 to 4 and grow by one. What \<open>parseInt\<close> returns is a \<open>number\<close>: not a number, an
  integer that a double holds, or an infinity. A price is a rational.
\<close>

datatype number = NaN | Num int | PlusInfinity | MinusInfinity

function bitLength :: "int \<Rightarrow> nat" where
  "bitLength i = (if i \<le> 0 then 0 else Suc (bitLength (i div 2)))"
  by pat_completeness auto
termination
  by (relation "measure nat") auto

declare bitLength.simps [simp del]

definition roundToDouble :: "int \<Rightarrow> int" where
  \<comment> \<open>a positive integer of more than 53 bits, rounded to 53 significant bits, to the
      nearest, a tie to the even one\<close>
  "roundToDouble m =
     (let e = bitLength m - 53; q = m div 2 ^ e; r = m mod 2 ^ e; h = 2 ^ (e - 1)
      in if r < h \<or> (r = h \<and> even q) then q * 2 ^ e else (q + 1) * 2 ^ e)"

definition toNumber :: "int \<Rightarrow> number" where
  \<comment> \<open>the Number of a mathematical integer: itself below \<open>2 ^ 53\<close>, the nearest double
      from there on, an infinity from \<open>2 ^ 1024\<close> on\<close>
  "toNumber i =
     (if \<bar>i\<bar> < 2 ^ 53 then Num i
      else (let m = roundToDouble \<bar>i\<bar>
            in if 2 ^ 1024 \<le> m then (if i < 0 then MinusInfinity else PlusInfinity)
               else Num (if i < 0 then - m else m)))"

definition isWhiteSpace :: "char \<Rightarrow> bool" where
  \<comment> \<open>the white space and line terminators that \<open>trim\<close> and \<open>parseInt\<close> skip\<close>
  "isWhiteSpace c = ((of_char c :: nat) \<in> {9, 10, 11, 12, 13, 32, 160})"

definition trim :: "string \<Rightarrow> string" where
  \<comment> \<open>\<open>String.prototype.trim\<close>\<close>
  "trim s = rev (dropWhile isWhiteSpace (rev (dropWhile isWhiteSpace s)))"

definition lowerChar :: "char \<Rightarrow> char" where
  "lowerChar c =
     (let n = (of_char c :: nat)
      in if 65 \<le> n \<and> n \<le> 90 then char_of (n + 32)
         else if 192 \<le> n \<and> n \<le> 222 \<and> n \<noteq> 215 then char_of (n + 32)
         else c)"

definition toLowerCase :: "string \<Rightarrow> string" where
  \<comment> \<open>\<open>String.prototype.toLowerCase\<close>\<close>
  "toLowerCase s = map lowerChar s"

definition digitValue :: "char \<Rightarrow> nat option" where
  \<comment> \<open>the value of a digit in radix 16; the decimal digits are those of value below 10\<close>
  "digitValue c =
     (let n = (of_char c :: nat)
      in if 48 \<le> n \<and> n \<le> 57 then Some (n - 48)
         else if 97 \<le> n \<and> n \<le> 102 then Some (n - 87)
         else if 65 \<le> n \<and> n \<le> 70 then Some (n - 55)
         else None)"

definition isRadixDigit :: "nat \<Rightarrow> char \<Rightarrow> bool" where
  "isRadixDigit R c = (case digitValue c of None \<Rightarrow> False | Some v \<Rightarrow> v < R)"

definition digitsValue :: "nat \<Rightarrow> string \<Rightarrow> int" where
  \<comment> \<open>the integer that a run of digits spells in radix \<open>R\<close>\<close>
  "digitsValue R z =
     foldl (\<lambda>a c. a * int R + (case digitValue c of None \<Rightarrow> 0 | Some v \<Rightarrow> int v)) 0 z"

definition stripSign :: "string \<Rightarrow> int \<times> string" where
  "stripSign s =
     (case s of
        [] \<Rightarrow> (1, [])
      | c # r \<Rightarrow> if c = CHR ''-'' then (- 1, r) else if c = CHR ''+'' then (1, r) else (1, s))"

definition hexPrefixed :: "string \<Rightarrow> bool" where
  "hexPrefixed s =
     (case s of
        a # b # r \<Rightarrow> a = CHR ''0'' \<and> (b = CHR ''x'' \<or> b = CHR ''X'')
      | _ \<Rightarrow> False)"

definition parseInt :: "string \<Rightarrow> number" where
  \<comment> \<open>the global \<open>parseInt(string)\<close> called with no radix: skip leading white space, read an
      optional sign, switch to radix 16 on a \<open>0x\<close>/\<open>0X\<close> prefix, take the longest run of
      digits of the radix; \<open>NaN\<close> when that run is empty, else the Number of the integer
      the run spells, with the sign, correctly rounded as Node computes it\<close>
  "parseInt s =
     (let (sign, s2) = stripSign (dropWhile isWhiteSpace s);
          R = (if hexPrefixed s2 then 16 else 10);
          s3 = (if hexPrefixed s2 then drop 2 s2 else s2);
          z = takeWhile (isRadixDigit R) s3
      in if z = [] then NaN else toNumber (sign * digitsValue R z))"

definition truthy :: "string option \<Rightarrow> bool" where
  \<comment> \<open>the truth value of a value that is \<open>undefined\<close> or a string\<close>
  "truthy v = (case v of None \<Rightarrow> False | Some s \<Rightarrow> s \<noteq> [])"

section \<open>JSON values and responses\<close>

datatype json =
    JNull
  | JBool bool
  | JNum rat
  | JStr string
  | JArr "json list"
  | JObj "(string \<times> json) list"

definition field :: "string \<Rightarrow> json \<Rightarrow> json option" where
  "field k j = (case j of JObj kvs \<Rightarrow> map_of kvs k | _ \<Rightarrow> None)"

definition orNull :: "string option \<Rightarrow> json" where
  \<comment> \<open>\<open>v || null\<close> for a query parameter\<close>
  "orNull v = (case v of None \<Rightarrow> JNull | Some s \<Rightarrow> if s = [] then JNull else JStr s)"

datatype reply = Reply (status: nat) (body: json)

text \<open>
  The error classes of \<open>utils/errors\<close>, as the handlers and middlewares throw them, and
  the \<open>TypeError\<close> of the runtime. An error whose message is a template carries the value
  the template is filled with.
\<close>

datatype error =
    BadRequestError string
  | UnauthorizedError
  | ForbiddenError
  | NotFoundError number
  | ConflictError string
  | ValidationError "string list"
  | TypeError

section \<open>The entity store\<close>

text \<open>
  A product record; \<open>pid\<close> is its \<open>id\<close> field. The store is the array \<open>products\<close> and
  the counter \<open>nextId\<close>.
\<close>

record product =
  pid :: int
  name :: string
  description :: string
  price :: rat
  category :: string
  inStock :: bool

record store =
  products :: "product list"
  nextId :: int

definition initialProducts :: "product list" where
  "initialProducts =
     [\<lparr>pid = 1, name = ''Laptop Pro'', description = ''High-performance laptop'',
        price = 129999 / 100, category = ''Electronics'', inStock = True\<rparr>,
      \<lparr>pid = 2, name = ''Wireless Mouse'', description = ''Ergonomic mouse'',
        price = 2450 / 100, category = ''Accessories'', inStock = True\<rparr>,
      \<lparr>pid = 3, name = ''Coffee Maker'', description = ''12-cup automatic brewer'',
        price = 85, category = ''Home Goods'', inStock = False\<rparr>]"

definition initialStore :: store where
  "initialStore = \<lparr>products = initialProducts, nextId = 4\<rparr>"

definition productJson :: "product \<Rightarrow> json" where
  "productJson p =
     JObj [(''id'', JNum (of_int (pid p))), (''name'', JStr (name p)),
           (''description'', JStr (description p)), (''price'', JNum (price p)),
           (''category'', JStr (category p)), (''inStock'', JBool (inStock p))]"

fun findIndex :: "('a \<Rightarrow> bool) \<Rightarrow> 'a list \<Rightarrow> nat option" where
  "findIndex P [] = None"
| "findIndex P (x # xs) =
     (if P x then Some 0 else (case findIndex P xs of None \<Rightarrow> None | Some i \<Rightarrow> Some (Suc i)))"

definition findProductById :: "store \<Rightarrow> number \<Rightarrow> error + product" where
  \<comment> \<open>\<open>p.id === id\<close>: the stored ID is an integer, \<open>id\<close> is what \<open>parseInt\<close> returned\<close>
  "findProductById s i =
     (case find (\<lambda>p. Num (pid p) = i) (products s) of
        None \<Rightarrow> Inl (NotFoundError i)
      | Some p \<Rightarrow> Inr p)"

definition findProductIndexById :: "store \<Rightarrow> number \<Rightarrow> error + nat" where
  "findProductIndexById s i =
     (case findIndex (\<lambda>p. Num (pid p) = i) (products s) of
        None \<Rightarrow> Inl (NotFoundError i)
      | Some index \<Rightarrow> Inr index)"

section \<open>The middlewares\<close>

text \<open>
  \<open>middleware/auth\<close> and \<open>middleware/validation\<close> are imported by the application and are
  not among its source files. The application fixes where they run: first on every
  \<open>/api/products\<close> route, the validation after the authentication on the two routes that
  take a body.
\<close>

definition validApiKeys :: "string list" where
  \<comment> \<open>the two keys the server prints at start-up\<close>
  "validApiKeys = [''your-secret-api-key-123'', ''another-valid-key-456'']"

definition authenticateApiKey :: "string option \<Rightarrow> error + unit" where
  \<comment> \<open>Modelled from the spec: \<open>middleware/auth\<close> is missing. The argument is the
      \<open>x-api-key\<close> header. "Absence of the header signals Unauthorized; presence with a
      non-member value signals Forbidden."\<close>
  "authenticateApiKey key =
     (case key of
        None \<Rightarrow> Inl UnauthorizedError
      | Some k \<Rightarrow> if k \<in> set validApiKeys then Inr () else Inl ForbiddenError)"

definition statusCode :: "error \<Rightarrow> nat" where
  \<comment> \<open>Modelled from the spec: \<open>utils/errors\<close> is missing. "Each kind maps to a fixed HTTP
      status (400/401/403/404/409/422/500)."\<close>
  "statusCode e =
     (case e of
        BadRequestError m \<Rightarrow> 400
      | UnauthorizedError \<Rightarrow> 401
      | ForbiddenError \<Rightarrow> 403
      | NotFoundError i \<Rightarrow> 404
      | ConflictError n \<Rightarrow> 409
      | ValidationError ms \<Rightarrow> 422
      | TypeError \<Rightarrow> 500)"

text \<open>
  A request body: each of the five fields is absent (\<open>undefined\<close>) or a value of the
  field's type. Bodies with a field of another type are rejected by the validation and
  are not represented.
\<close>

record payload =
  b_name :: "string option"
  b_description :: "string option"
  b_price :: "rat option"
  b_category :: "string option"
  b_inStock :: "bool option"

definition emptyPayload :: payload where
  "emptyPayload =
     \<lparr>b_name = None, b_description = None, b_price = None, b_category = None,
      b_inStock = None\<rparr>"

definition nameErrors :: "string \<Rightarrow> string list" where
  "nameErrors n = (if n = [] \<or> 100 < length n then [''name''] else [])"

definition descriptionErrors :: "string \<Rightarrow> string list" where
  "descriptionErrors d = (if 500 < length d then [''description''] else [])"

definition priceErrors :: "rat \<Rightarrow> string list" where
  "priceErrors p = (if 0 < p then [] else [''price''])"

definition categoryErrors :: "string \<Rightarrow> string list" where
  "categoryErrors c = (if c = [] then [''category''] else [])"

definition creationErrors :: "payload \<Rightarrow> string list" where
  "creationErrors b =
     (case b_name b of None \<Rightarrow> [''name''] | Some n \<Rightarrow> nameErrors n) @
     (case b_description b of None \<Rightarrow> [''description''] | Some d \<Rightarrow> descriptionErrors d) @
     (case b_price b of None \<Rightarrow> [''price''] | Some p \<Rightarrow> priceErrors p) @
     (case b_category b of None \<Rightarrow> [''category''] | Some c \<Rightarrow> categoryErrors c) @
     (case b_inStock b of None \<Rightarrow> [''inStock''] | Some i \<Rightarrow> [])"

definition validateProductCreation ::
  "payload \<Rightarrow> error + (string \<times> string \<times> rat \<times> string \<times> bool)" where
  \<comment> \<open>Modelled from the spec: \<open>middleware/validation\<close> is missing. "Create requires all
      fields present and well-typed: name and category non-empty strings [name at most 100
      characters], description a string [of at most 500], price a positive number, inStock
      a boolean. Validation failures accumulate into a list of messages": the list names
      the offending fields. On success the result is the five fields the handler then reads
      from the body.\<close>
  "validateProductCreation b =
     (case (b_name b, b_description b, b_price b, b_category b, b_inStock b) of
        (Some n, Some d, Some p, Some c, Some i) \<Rightarrow>
          if creationErrors b = [] then Inr (n, d, p, c, i)
          else Inl (ValidationError (creationErrors b))
      | _ \<Rightarrow> Inl (ValidationError (creationErrors b)))"

definition updateErrors :: "payload \<Rightarrow> string list" where
  "updateErrors b =
     (case b_name b of None \<Rightarrow> [] | Some n \<Rightarrow> nameErrors n) @
     (case b_description b of None \<Rightarrow> [] | Some d \<Rightarrow> descriptionErrors d) @
     (case b_price b of None \<Rightarrow> [] | Some p \<Rightarrow> priceErrors p) @
     (case b_category b of None \<Rightarrow> [] | Some c \<Rightarrow> categoryErrors c)"

definition validateProductUpdate :: "payload \<Rightarrow> error + unit" where
  \<comment> \<open>Modelled from the spec: \<open>middleware/validation\<close> is missing. "Update accepts any
      subset of the same fields, each validated only if present; an empty update payload
      is accepted."\<close>
  "validateProductUpdate b =
     (if updateErrors b = [] then Inr () else Inl (ValidationError (updateErrors b)))"

section \<open>The helper modules\<close>

text \<open>
  A query string: each parameter is absent or a string.
\<close>

record query =
  q_category :: "string option"
  q_inStock :: "string option"
  q_minPrice :: "string option"
  q_maxPrice :: "string option"
  q_q :: "string option"
  q_sort :: "string option"
  q_page :: "string option"
  q_limit :: "string option"

text \<open>
  \<open>utils/productHelpers\<close> and \<open>utils/queryHelpers\<close> are imported by the application and
  are not among its source files. The handlers below take their functions as a parameter,
  so what is proved of a handler holds whatever these functions compute, as long as they
  return. \<open>parseSort\<close> returns a field and an order, or nothing; \<open>parsePagination\<close>
  returns the page, the limit and the number of records to skip.
\<close>

record helpers =
  searchByName :: "product list \<Rightarrow> string \<Rightarrow> product list"
  filterByCategory :: "product list \<Rightarrow> string option \<Rightarrow> product list"
  filterByStock :: "product list \<Rightarrow> string option \<Rightarrow> product list"
  filterByPriceRange :: "product list \<Rightarrow> string option \<Rightarrow> string option \<Rightarrow> product list"
  sortProducts :: "product list \<Rightarrow> string \<Rightarrow> string \<Rightarrow> product list"
  calculateStatistics :: "product list \<Rightarrow> json"
  parseSort :: "query \<Rightarrow> (string \<times> string) option"
  parsePagination :: "query \<Rightarrow> int \<times> int \<times> int"
  createPaginationMeta :: "int \<Rightarrow> int \<Rightarrow> int \<Rightarrow> json"

definition paginateProducts :: "'a list \<Rightarrow> int \<Rightarrow> int \<Rightarrow> 'a list" where
  \<comment> \<open>Modelled from the spec: \<open>utils/productHelpers\<close> is missing. "Returns the sub-sequence
      \<open>[skip, skip+limit)\<close>, clamped to available length; empty if \<open>skip\<close> exceeds length":
      the records at the positions of the list that lie in \<open>[skip, skip+limit)\<close>, in
      order.\<close>
  "paginateProducts list skip limit =
     map (\<lambda>i. list ! i) (filter (\<lambda>i. skip \<le> int i \<and> int i < skip + limit) [0..<length list])"

section \<open>The route handlers\<close>

text \<open>
  A handler runs without interruption up to its \<open>await\<close> of a timer of 10 ms and, when
  the timer fires, from there to its response; other requests may be served in between.
  The handlers that only read compute from one reading of the store. Each handler that
  writes is two functions: what it does before the wait, which checks and may throw and
  never writes, and what it does after the wait, on the store as it is then. The handler
  under its own name is the two run on one store, that is, with no other request served
  during its wait.
\<close>

definition sortJson :: "(string \<times> string) option \<Rightarrow> json" where
  "sortJson sp =
     (case sp of
        None \<Rightarrow> JNull
      | Some (f, ord) \<Rightarrow> JObj [(''field'', JStr f), (''order'', JStr ord)])"

definition listProducts :: "helpers \<Rightarrow> store \<Rightarrow> query \<Rightarrow> error + reply" where
  \<comment> \<open>\<open>GET /api/products\<close>\<close>
  "listProducts H s qry =
     (let filteredProducts = products s;
          filteredProducts =
            (case q_q qry of
               None \<Rightarrow> filteredProducts
             | Some q \<Rightarrow> if q = [] then filteredProducts else searchByName H filteredProducts q);
          filteredProducts = filterByCategory H filteredProducts (q_category qry);
          filteredProducts = filterByStock H filteredProducts (q_inStock qry);
          filteredProducts =
            filterByPriceRange H filteredProducts (q_minPrice qry) (q_maxPrice qry);
          sortParams = parseSort H qry;
          filteredProducts =
            (case sortParams of
               None \<Rightarrow> filteredProducts
             | Some (f, ord) \<Rightarrow> sortProducts H filteredProducts f ord);
          totalCount = int (length filteredProducts);
          (page, limit, skip) = parsePagination H qry;
          paginatedProducts = paginateProducts filteredProducts skip limit;
          pagination = createPaginationMeta H totalCount page limit
      in Inr (Reply 200 (JObj
           [(''success'', JBool True),
            (''filters'', JObj
               [(''category'', orNull (q_category qry)), (''inStock'', orNull (q_inStock qry)),
                (''minPrice'', orNull (q_minPrice qry)), (''maxPrice'', orNull (q_maxPrice qry)),
                (''search'', orNull (q_q qry))]),
            (''sort'', sortJson sortParams),
            (''pagination'', pagination),
            (''data'', JArr (map productJson paginatedProducts))])))"

definition searchProducts :: "helpers \<Rightarrow> store \<Rightarrow> query \<Rightarrow> error + reply" where
  \<comment> \<open>\<open>GET /api/products/search\<close>\<close>
  "searchProducts H s qry =
     (case q_q qry of
        None \<Rightarrow> Inl (BadRequestError ''Search query parameter \"q\" is required'')
      | Some q \<Rightarrow>
          if q = [] \<or> trim q = [] then
            Inl (BadRequestError ''Search query parameter \"q\" is required'')
          else
            (let results = searchByName H (products s) q;
                 results =
                   (if truthy (q_category qry) then filterByCategory H results (q_category qry)
                    else results);
                 results =
                   (if q_inStock qry \<noteq> None then filterByStock H results (q_inStock qry)
                    else results);
                 (page, limit, skip) = parsePagination H qry;
                 totalCount = int (length results);
                 paginatedResults = paginateProducts results skip limit;
                 pagination = createPaginationMeta H totalCount page limit
             in Inr (Reply 200 (JObj
                  [(''success'', JBool True),
                   (''query'', JStr q),
                   (''filters'', JObj
                      [(''category'', orNull (q_category qry)),
                       (''inStock'', orNull (q_inStock qry))]),
                   (''pagination'', pagination),
                   (''resultsCount'', JNum (of_int totalCount)),
                   (''data'', JArr (map productJson paginatedResults))]))))"

definition productStats :: "helpers \<Rightarrow> store \<Rightarrow> query \<Rightarrow> error + reply" where
  \<comment> \<open>\<open>GET /api/products/stats\<close>\<close>
  "productStats H s qry =
     (let productsToAnalyze =
            (if truthy (q_category qry) then filterByCategory H (products s) (q_category qry)
             else products s);
          stats = calculateStatistics H productsToAnalyze
      in Inr (Reply 200 (JObj
           [(''success'', JBool True),
            (''filter'',
               (case q_category qry of
                  None \<Rightarrow> JNull
                | Some c \<Rightarrow> if c = [] then JNull else JObj [(''category'', JStr c)])),
            (''statistics'', stats)])))"

definition getProduct :: "store \<Rightarrow> string \<Rightarrow> error + reply" where
  \<comment> \<open>\<open>GET /api/products/:id\<close>; the store is read after the wait\<close>
  "getProduct s idParam =
     (let i = parseInt idParam
      in if i = NaN then Inl (BadRequestError ''Product ID must be a valid number'')
         else
           (case findProductById s i of
              Inl e \<Rightarrow> Inl e
            | Inr product \<Rightarrow> Inr (Reply 200 (productJson product))))"

definition newProduct :: "store \<Rightarrow> string \<Rightarrow> string \<Rightarrow> rat \<Rightarrow> string \<Rightarrow> bool \<Rightarrow> product" where
  \<comment> \<open>the record the create handler builds; \<open>parseFloat\<close> of a number and \<open>Boolean\<close> of
      a boolean return their argument\<close>
  "newProduct s nm descr pr cat stock =
     \<lparr>pid = nextId s, name = trim nm, description = trim descr, price = pr,
      category = trim cat, inStock = stock\<rparr>"

definition postProductCheck :: "store \<Rightarrow> string \<Rightarrow> error + unit" where
  \<comment> \<open>\<open>POST /api/products\<close> before the wait: the duplicate check\<close>
  "postProductCheck s nm =
     (case find (\<lambda>p. toLowerCase (name p) = toLowerCase (trim nm)) (products s) of
        Some duplicate \<Rightarrow> Inl (ConflictError nm)
      | None \<Rightarrow> Inr ())"

definition postProductWrite ::
  "store \<Rightarrow> string \<Rightarrow> string \<Rightarrow> rat \<Rightarrow> string \<Rightarrow> bool \<Rightarrow> store \<times> (error + reply)" where
  \<comment> \<open>\<open>POST /api/products\<close> after the wait: \<open>nextId++\<close>, the push and the response\<close>
  "postProductWrite s nm descr pr cat stock =
     (let np = newProduct s nm descr pr cat stock;
          s1 = s\<lparr>nextId := nextId s + 1\<rparr>;
          s2 = s1\<lparr>products := products s1 @ [np]\<rparr>
      in (s2, Inr (Reply 201 (JObj
            [(''message'', JStr ''Product created successfully''),
             (''data'', productJson np)]))))"

definition postProduct ::
  "store \<Rightarrow> string \<Rightarrow> string \<Rightarrow> rat \<Rightarrow> string \<Rightarrow> bool \<Rightarrow> store \<times> (error + reply)" where
  \<comment> \<open>\<open>POST /api/products\<close>, on the five fields of the validated body, with no other
      request served during its wait\<close>
  "postProduct s nm descr pr cat stock =
     (case postProductCheck s nm of
        Inl e \<Rightarrow> (s, Inl e)
      | Inr u \<Rightarrow> postProductWrite s nm descr pr cat stock)"

definition assignFields :: "payload \<Rightarrow> product \<Rightarrow> product" where
  \<comment> \<open>the five conditional assignments of the update handler, in their order; a field is
      assigned when the body holds it (\<open>!== undefined\<close>), the name as it was sent\<close>
  "assignFields b p =
     (let p = (case b_name b of None \<Rightarrow> p | Some n \<Rightarrow> p\<lparr>name := n\<rparr>);
          p = (case b_description b of None \<Rightarrow> p | Some d \<Rightarrow> p\<lparr>description := d\<rparr>);
          p = (case b_price b of None \<Rightarrow> p | Some pr \<Rightarrow> p\<lparr>price := pr\<rparr>);
          p = (case b_category b of None \<Rightarrow> p | Some c \<Rightarrow> p\<lparr>category := c\<rparr>);
          p = (case b_inStock b of None \<Rightarrow> p | Some i \<Rightarrow> p\<lparr>inStock := i\<rparr>)
      in p)"

definition putProductCheck :: "store \<Rightarrow> string \<Rightarrow> payload \<Rightarrow> error + nat" where
  \<comment> \<open>\<open>PUT /api/products/:id\<close> before the wait: the id, the index of the product, and
      the duplicate check, which runs when \<open>name\<close> is a non-empty string; the result is
      \<open>productIndex\<close>\<close>
  "putProductCheck s idParam b =
     (let i = parseInt idParam
      in if i = NaN then Inl (BadRequestError ''Product ID must be a valid number'')
         else
           (case findProductIndexById s i of
              Inl e \<Rightarrow> Inl e
            | Inr productIndex \<Rightarrow>
                (case b_name b of
                   None \<Rightarrow> Inr productIndex
                 | Some n \<Rightarrow>
                     if n = [] then Inr productIndex
                     else
                       (case find (\<lambda>p. Num (pid p) \<noteq> i \<and>
                                 toLowerCase (name p) = toLowerCase (trim n)) (products s) of
                          Some duplicate \<Rightarrow> Inl (ConflictError n)
                        | None \<Rightarrow> Inr productIndex))))"

definition writeFields :: "store \<Rightarrow> nat \<Rightarrow> payload \<Rightarrow> store \<times> (error + reply)" where
  \<comment> \<open>the assignments to \<open>products[productIndex]\<close> and the response, where
      \<open>products[productIndex]\<close> is a record\<close>
  "writeFields s productIndex b =
     (let s1 = s\<lparr>products :=
                 (products s)[productIndex := assignFields b (products s ! productIndex)]\<rparr>
      in (s1, Inr (Reply 200 (JObj
            [(''message'', JStr ''Product update succesfully''),
             (''data'', productJson (products s1 ! productIndex))]))))"

definition putProductWrite :: "store \<Rightarrow> nat \<Rightarrow> payload \<Rightarrow> store \<times> (error + reply)" where
  \<comment> \<open>\<open>PUT /api/products/:id\<close> after the wait, on the store as it is then. Where the
      array has become too short for \<open>productIndex\<close>, \<open>products[productIndex]\<close> is
      \<open>undefined\<close>: the first assignment throws a \<open>TypeError\<close> before anything is
      written, and with no field to assign the response is sent with no \<open>data\<close>\<close>
  "putProductWrite s productIndex b =
     (if productIndex < length (products s) then writeFields s productIndex b
      else if b_name b = None \<and> b_description b = None \<and> b_price b = None
              \<and> b_category b = None \<and> b_inStock b = None
      then (s, Inr (Reply 200 (JObj [(''message'', JStr ''Product update succesfully'')])))
      else (s, Inl TypeError))"

definition putProduct :: "store \<Rightarrow> string \<Rightarrow> payload \<Rightarrow> store \<times> (error + reply)" where
  \<comment> \<open>\<open>PUT /api/products/:id\<close> with no other request served during its wait\<close>
  "putProduct s idParam b =
     (case putProductCheck s idParam b of
        Inl e \<Rightarrow> (s, Inl e)
      | Inr productIndex \<Rightarrow> putProductWrite s productIndex b)"

definition deleteProductCheck :: "store \<Rightarrow> string \<Rightarrow> error + nat" where
  \<comment> \<open>\<open>DELETE /api/products/:id\<close> before the wait; the result is \<open>productIndex\<close>\<close>
  "deleteProductCheck s idParam =
     (let i = parseInt idParam
      in if i = NaN then Inl (BadRequestError ''Product ID must be a valid number'')
         else findProductIndexById s i)"

definition deleteProductWrite :: "store \<Rightarrow> nat \<Rightarrow> store \<times> (error + reply)" where
  \<comment> \<open>\<open>DELETE /api/products/:id\<close> after the wait, on the store as it is then:
      \<open>splice(productIndex, 1)\<close> removes the record at that position, or nothing where
      the array has become too short, and the response is then sent with no \<open>data\<close>\<close>
  "deleteProductWrite s productIndex =
     (if productIndex < length (products s) then
        (let deletedProduct = products s ! productIndex;
             s1 = s\<lparr>products := take productIndex (products s) @
                                  drop (Suc productIndex) (products s)\<rparr>
         in (s1, Inr (Reply 200 (JObj
               [(''message'', JStr ''Product deleted successfully''),
                (''data'', productJson deletedProduct)]))))
      else (s, Inr (Reply 200 (JObj [(''message'', JStr ''Product deleted successfully'')]))))"

definition deleteProduct :: "store \<Rightarrow> string \<Rightarrow> store \<times> (error + reply)" where
  \<comment> \<open>\<open>DELETE /api/products/:id\<close> with no other request served during its wait\<close>
  "deleteProduct s idParam =
     (case deleteProductCheck s idParam of
        Inl e \<Rightarrow> (s, Inl e)
      | Inr productIndex \<Rightarrow> deleteProductWrite s productIndex)"

section \<open>Routes\<close>

text \<open>
  The three operations that write to the store, as a client holding a valid key requests
  them: the validation middleware of the route, then its handler. \<open>applyOp\<close> is the
  operation with no other request served during its wait.
\<close>

datatype op = Create payload | Update string payload | Delete string

definition applyOp :: "op \<Rightarrow> store \<Rightarrow> store \<times> (error + reply)" where
  "applyOp o' s =
     (case o' of
        Create b \<Rightarrow>
          (case validateProductCreation b of
             Inl e \<Rightarrow> (s, Inl e)
           | Inr (nm, descr, pr, cat, stock) \<Rightarrow> postProduct s nm descr pr cat stock)
      | Update idParam b \<Rightarrow>
          (case validateProductUpdate b of
             Inl e \<Rightarrow> (s, Inl e)
           | Inr u \<Rightarrow> putProduct s idParam b)
      | Delete idParam \<Rightarrow> deleteProduct s idParam)"

fun runOps :: "op list \<Rightarrow> store \<Rightarrow> store" where
  "runOps [] s = s"
| "runOps (o' # os) s = runOps os (fst (applyOp o' s))"

text \<open>
  Requests that overlap. An operation that arrives runs its validation and the part of
  its handler before the wait; it is answered at once when that throws, and otherwise
  waits with what its handler holds in its local variables. The timers all last 10 ms, so
  the waiting handlers resume in the order they began to wait; \<open>Timer\<close> resumes the one
  that has waited longest. \<open>serve\<close> returns the store, the handlers still waiting, and the
  answers in the order they were sent.
\<close>

datatype pending =
    PendingPost string string rat string bool
  | PendingPut nat payload
  | PendingDelete nat

definition startOp :: "op \<Rightarrow> store \<Rightarrow> error + pending" where
  "startOp o' s =
     (case o' of
        Create b \<Rightarrow>
          (case validateProductCreation b of
             Inl e \<Rightarrow> Inl e
           | Inr (nm, descr, pr, cat, stock) \<Rightarrow>
               (case postProductCheck s nm of
                  Inl e \<Rightarrow> Inl e
                | Inr u \<Rightarrow> Inr (PendingPost nm descr pr cat stock)))
      | Update idParam b \<Rightarrow>
          (case validateProductUpdate b of
             Inl e \<Rightarrow> Inl e
           | Inr u \<Rightarrow>
               (case putProductCheck s idParam b of
                  Inl e \<Rightarrow> Inl e
                | Inr productIndex \<Rightarrow> Inr (PendingPut productIndex b)))
      | Delete idParam \<Rightarrow>
          (case deleteProductCheck s idParam of
             Inl e \<Rightarrow> Inl e
           | Inr productIndex \<Rightarrow> Inr (PendingDelete productIndex)))"

definition finishOp :: "pending \<Rightarrow> store \<Rightarrow> store \<times> (error + reply)" where
  "finishOp p s =
     (case p of
        PendingPost nm descr pr cat stock \<Rightarrow> postProductWrite s nm descr pr cat stock
      | PendingPut productIndex b \<Rightarrow> putProductWrite s productIndex b
      | PendingDelete productIndex \<Rightarrow> deleteProductWrite s productIndex)"

datatype event = Arrive op | Timer

fun serve ::
  "event list \<Rightarrow> store \<times> pending list \<Rightarrow> (store \<times> pending list) \<times> (error + reply) list" where
  "serve [] c = (c, [])"
| "serve (Arrive o' # es) (s, q) =
     (case startOp o' s of
        Inl e \<Rightarrow> (let (c, rs) = serve es (s, q) in (c, Inl e # rs))
      | Inr p \<Rightarrow> serve es (s, q @ [p]))"
| "serve (Timer # es) (s, []) = serve es (s, [])"
| "serve (Timer # es) (s, p # q) =
     (let (s1, r) = finishOp p s; (c, rs) = serve es (s1, q) in (c, r # rs))"

text \<open>
  The seven \<open>/api/products\<close> routes, each with \<open>authenticateApiKey\<close> as its first
  middleware. The three public routes and the fallback for unmatched paths run no
  middleware of the application and touch no store; they are left out. \<open>handle\<close> is a
  request with no other request served during its wait.
\<close>

datatype request =
    ListProducts query
  | SearchProducts query
  | ProductStats query
  | GetProduct string
  | PostProduct payload
  | PutProduct string payload
  | DeleteProduct string

definition handle :: "helpers \<Rightarrow> string option \<Rightarrow> request \<Rightarrow> store \<Rightarrow> store \<times> (error + reply)" where
  "handle H key req s =
     (case authenticateApiKey key of
        Inl e \<Rightarrow> (s, Inl e)
      | Inr u \<Rightarrow>
          (case req of
             ListProducts qry \<Rightarrow> (s, listProducts H s qry)
           | SearchProducts qry \<Rightarrow> (s, searchProducts H s qry)
           | ProductStats qry \<Rightarrow> (s, productStats H s qry)
           | GetProduct idParam \<Rightarrow> (s, getProduct s idParam)
           | PostProduct b \<Rightarrow> applyOp (Create b) s
           | PutProduct idParam b \<Rightarrow> applyOp (Update idParam b) s
           | DeleteProduct idParam \<Rightarrow> applyOp (Delete idParam) s))"

section \<open>Notions the properties are stated with\<close>

definition sampleHelpers :: helpers where
  \<comment> \<open>one implementation of the helper modules, to state properties at a concrete input:
      the search keeps the records whose name begins with the query, letter case ignored;
      no filter and no sort; the second page of pages of one record\<close>
  "sampleHelpers =
     \<lparr>searchByName =
        (\<lambda>ps q. filter (\<lambda>p. take (length q) (toLowerCase (name p)) = toLowerCase q) ps),
      filterByCategory = (\<lambda>ps c. ps),
      filterByStock = (\<lambda>ps i. ps),
      filterByPriceRange = (\<lambda>ps lo hi. ps),
      sortProducts = (\<lambda>ps f ord. ps),
      calculateStatistics = (\<lambda>ps. JObj [(''totalProducts'', JNum (of_nat (length ps)))]),
      parseSort = (\<lambda>qry. None),
      parsePagination = (\<lambda>qry. (2, 1, 1)),
      createPaginationMeta = (\<lambda>total page limit. JObj [(''totalItems'', JNum (of_int total))])\<rparr>"

definition sampleStore :: store where
  \<comment> \<open>the initial store after one more laptop was created\<close>
  "sampleStore =
     \<lparr>products = initialProducts @
        [\<lparr>pid = 4, name = ''Laptop Air'', description = ''Light laptop'', price = 999,
          category = ''Electronics'', inStock = True\<rparr>],
      nextId = 5\<rparr>"

definition sampleQuery :: query where
  \<comment> \<open>\<open>?q=lap&page=2&limit=1\<close>\<close>
  "sampleQuery =
     \<lparr>q_category = None, q_inStock = None, q_minPrice = None, q_maxPrice = None,
      q_q = Some ''lap'', q_sort = None, q_page = Some ''2'', q_limit = Some ''1''\<rparr>"

definition searchStep :: "helpers \<Rightarrow> query \<Rightarrow> product list \<Rightarrow> product list" where
  \<comment> \<open>the search of a list request, applied when \<open>q\<close> is given and not empty\<close>
  "searchStep H qry ps =
     (case q_q qry of None \<Rightarrow> ps | Some q \<Rightarrow> if q = [] then ps else searchByName H ps q)"

definition filterStep :: "helpers \<Rightarrow> query \<Rightarrow> product list \<Rightarrow> product list" where
  \<comment> \<open>the category filter, then the stock filter, then the price filter\<close>
  "filterStep H qry ps =
     filterByPriceRange H
       (filterByStock H (filterByCategory H ps (q_category qry)) (q_inStock qry))
       (q_minPrice qry) (q_maxPrice qry)"

definition sortStep :: "helpers \<Rightarrow> query \<Rightarrow> product list \<Rightarrow> product list" where
  \<comment> \<open>the sort, applied when \<open>parseSort\<close> finds a sort directive\<close>
  "sortStep H qry ps =
     (case parseSort H qry of None \<Rightarrow> ps | Some (f, ord) \<Rightarrow> sortProducts H ps f ord)"

definition beforePagination :: "helpers \<Rightarrow> query \<Rightarrow> product list \<Rightarrow> product list" where
  \<comment> \<open>the order the specification gives: search, filters, sort\<close>
  "beforePagination H qry ps = sortStep H qry (filterStep H qry (searchStep H qry ps))"

definition isBadRequest :: "error + reply \<Rightarrow> bool" where
  "isBadRequest r = (case r of Inl (BadRequestError m) \<Rightarrow> True | _ \<Rightarrow> False)"

definition leadingDigits :: "string \<Rightarrow> string" where
  \<comment> \<open>the decimal digits a string begins with\<close>
  "leadingDigits s = takeWhile (isRadixDigit 10) s"

definition startsWithNumber :: "string \<Rightarrow> bool" where
  \<comment> \<open>after leading white space and an optional sign: a hexadecimal digit follows a
      \<open>0x\<close>/\<open>0X\<close> prefix, or, with no such prefix, the rest begins with a decimal digit\<close>
  "startsWithNumber s =
     (let r = snd (stripSign (dropWhile isWhiteSpace s))
      in if hexPrefixed r then (case drop 2 r of [] \<Rightarrow> False | c # cs \<Rightarrow> isRadixDigit 16 c)
         else (case r of [] \<Rightarrow> False | c # cs \<Rightarrow> isRadixDigit 10 c))"

definition signOf :: "string \<Rightarrow> int" where
  \<comment> \<open>the sign that an optional sign character gives\<close>
  "signOf sg = (if sg = ''-'' then - 1 else 1)"

definition servesProduct ::
  "helpers \<Rightarrow> string \<Rightarrow> store \<Rightarrow> string \<Rightarrow> payload \<Rightarrow> number \<Rightarrow> bool" where
  \<comment> \<open>the three requests with id parameter \<open>idParam\<close>, key \<open>k\<close> and body \<open>b\<close> operate on the
      first stored product whose ID is the number \<open>n\<close>: the GET answers it, the PUT assigns
      the fields of its body to it or answers Conflict, the DELETE removes it and answers
      it; where no stored product has that ID the three answer NotFound, naming \<open>n\<close>, and
      leave the store\<close>
  "servesProduct H k s idParam b n =
     (case findIndex (\<lambda>p. Num (pid p) = n) (products s) of
        None \<Rightarrow>
          handle H (Some k) (GetProduct idParam) s = (s, Inl (NotFoundError n))
          \<and> handle H (Some k) (PutProduct idParam b) s = (s, Inl (NotFoundError n))
          \<and> handle H (Some k) (DeleteProduct idParam) s = (s, Inl (NotFoundError n))
      | Some j \<Rightarrow>
          handle H (Some k) (GetProduct idParam) s
            = (s, Inr (Reply 200 (productJson (products s ! j))))
          \<and> (handle H (Some k) (PutProduct idParam b) s
                = (s\<lparr>products := (products s)[j := assignFields b (products s ! j)]\<rparr>,
                   Inr (Reply 200 (JObj
                     [(''message'', JStr ''Product update succesfully''),
                      (''data'', productJson (assignFields b (products s ! j)))])))
              \<or> (\<exists>nm. b_name b = Some nm
                    \<and> handle H (Some k) (PutProduct idParam b) s = (s, Inl (ConflictError nm))))
          \<and> handle H (Some k) (DeleteProduct idParam) s
            = (s\<lparr>products := take j (products s) @ drop (Suc j) (products s)\<rparr>,
               Inr (Reply 200 (JObj
                 [(''message'', JStr ''Product deleted successfully''),
                  (''data'', productJson (products s ! j))]))))"

definition idsBelowCounter :: "store \<Rightarrow> bool" where
  \<comment> \<open>every stored ID is below the ID counter\<close>
  "idsBelowCounter s = list_all (\<lambda>p. pid p < nextId s) (products s)"

definition sameName :: "string \<Rightarrow> string \<Rightarrow> bool" where
  \<comment> \<open>two names are equal once trimmed and folded to lower case\<close>
  "sameName a b = (toLowerCase (trim a) = toLowerCase (trim b))"

definition uniqueNames :: "store \<Rightarrow> bool" where
  \<comment> \<open>no two stored products have the same name in that sense\<close>
  "uniqueNames s = distinct (map (\<lambda>p. toLowerCase (trim (name p))) (products s))"

definition namesTrimmed :: "store \<Rightarrow> bool" where
  \<comment> \<open>every stored name is stored trimmed\<close>
  "namesTrimmed s = list_all (\<lambda>p. trim (name p) = name p) (products s)"

definition keepsNames :: "op \<Rightarrow> bool" where
  \<comment> \<open>an operation that is not an update whose body holds a name\<close>
  "keepsNames o' = (case o' of Update idParam b \<Rightarrow> b_name b = None | _ \<Rightarrow> True)"

definition widget :: payload where
  \<comment> \<open>a valid body for a create\<close>
  "widget =
     \<lparr>b_name = Some ''Widget'', b_description = Some ''d'', b_price = Some (999 / 100),
      b_category = Some ''X'', b_inStock = Some True\<rparr>"

definition paddedName :: payload where
  \<comment> \<open>a body for an update: a new name, with a space after it\<close>
  "paddedName = emptyPayload\<lparr>b_name := Some ''Widget ''\<rparr>"

definition recategorising :: payload where
  \<comment> \<open>a body for an update: a new category\<close>
  "recategorising = emptyPayload\<lparr>b_category := Some ''Office''\<rparr>"

definition negativePrice :: payload where
  \<comment> \<open>a body that the update validation rejects\<close>
  "negativePrice = emptyPayload\<lparr>b_price := Some (- 1)\<rparr>"

definition repricing :: payload where
  \<comment> \<open>a body for an update: a new price and stock flag\<close>
  "repricing = emptyPayload\<lparr>b_price := Some 20, b_inStock := Some False\<rparr>"

section \<open>Pagination\<close>

lemma filter_window:
  "filter (\<lambda>i. a \<le> i \<and> i < a + b) [0..<n] = [a..<min (a + b) n]"
proof (induction n)
  case 0
  then show ?case by simp
next
  case (Suc n)
  show ?case
  proof (cases "a \<le> n \<and> n < a + b")
    case True
    then have "min (a + b) n = n" and "min (a + b) (Suc n) = Suc n" by auto
    with True Suc show ?thesis by simp
  next
    case False
    then have "min (a + b) (Suc n) = min (a + b) n \<or> Suc n \<le> a" by (auto simp: min_def)
    with False Suc show ?thesis by (auto simp: min_def)
  qed
qed

lemma map_nth_window:
  "map (\<lambda>i. xs ! i) [a..<min (a + b) (length xs)] = take b (drop a xs)"
  by (rule nth_equalityI) (auto simp: min_def split: if_splits)

lemma paginate_nat: "paginateProducts xs (int a) (int b) = take b (drop a xs)"
proof -
  have "(\<lambda>i. int a \<le> int i \<and> int i < int a + int b) = (\<lambda>i. a \<le> i \<and> i < a + b)"
    by (rule ext) auto
  then show ?thesis
    unfolding paginateProducts_def by (simp add: filter_window map_nth_window)
qed

text \<open>
  Claim C7. For every list and every \<open>skip \<ge> 0\<close> and \<open>limit \<ge> 0\<close>,
  \<open>paginateProducts list skip limit\<close> is the part of the list that starts after \<open>skip\<close>
  records and holds at most \<open>limit\<close> of them; its length is
  \<open>min limit (max 0 (length list - skip))\<close>, and it is empty when \<open>skip\<close> is at least the
  length of the list.
\<close>

theorem paginateProducts_slice:
  assumes "0 \<le> skip" and "0 \<le> limit"
  shows "paginateProducts list skip limit = take (nat limit) (drop (nat skip) list)
       \<and> int (length (paginateProducts list skip limit))
           = min limit (max 0 (int (length list) - skip))
       \<and> (int (length list) \<le> skip \<longrightarrow> paginateProducts list skip limit = [])"
proof -
  have eq: "paginateProducts list skip limit = take (nat limit) (drop (nat skip) list)"
    using assms paginate_nat [of list "nat skip" "nat limit"] by simp
  have "length (take (nat limit) (drop (nat skip) list))
          = min (nat limit) (length list - nat skip)"
    by simp
  then have len: "int (length (take (nat limit) (drop (nat skip) list)))
          = min limit (max 0 (int (length list) - skip))"
    using assms by linarith
  have emp: "int (length list) \<le> skip \<longrightarrow> take (nat limit) (drop (nat skip) list) = []"
    using assms by auto
  show ?thesis using eq len emp by simp
qed

theorem paginateProducts_slice_witness:
  "paginateProducts ''abcdefg'' 2 3 = ''cde''
   \<and> paginateProducts ''abcdefg'' 5 3 = ''fg''
   \<and> paginateProducts ''abcdefg'' 7 3 = []"
  using paginateProducts_slice [of 2 3 "''abcdefg''"]
    paginateProducts_slice [of 5 3 "''abcdefg''"]
    paginateProducts_slice [of 7 3 "''abcdefg''"]
  by simp

section \<open>The list pipeline\<close>

text \<open>
  Claim C4. A list request applies the search, then the category, stock and price
  filters, then the sort, then counts, then paginates: the pagination metadata of the
  response is computed from the length of the collection after search, filters and sort,
  and the data of the response is the page cut from that same collection.
\<close>

theorem list_pipeline_order:
  "\<exists>r. listProducts H s qry = Inr r
     \<and> field ''pagination'' (body r)
         = Some (createPaginationMeta H (int (length (beforePagination H qry (products s))))
                   (fst (parsePagination H qry)) (fst (snd (parsePagination H qry))))
     \<and> field ''data'' (body r)
         = Some (JArr (map productJson
                   (paginateProducts (beforePagination H qry (products s))
                      (snd (snd (parsePagination H qry))) (fst (snd (parsePagination H qry))))))"
  by (simp add: listProducts_def beforePagination_def sortStep_def filterStep_def searchStep_def
        field_def Let_def split: prod.splits option.splits)

theorem list_pipeline_order_witness:
  "listProducts sampleHelpers sampleStore sampleQuery
   = Inr (Reply 200 (JObj
       [(''success'', JBool True),
        (''filters'', JObj [(''category'', JNull), (''inStock'', JNull), (''minPrice'', JNull),
                            (''maxPrice'', JNull), (''search'', JStr ''lap'')]),
        (''sort'', JNull),
        (''pagination'', JObj [(''totalItems'', JNum 2)]),
        (''data'', JArr [JObj [(''id'', JNum 4), (''name'', JStr ''Laptop Air''),
                               (''description'', JStr ''Light laptop''), (''price'', JNum 999),
                               (''category'', JStr ''Electronics''), (''inStock'', JBool True)]])]))
   \<and> length (beforePagination sampleHelpers sampleQuery (products sampleStore)) = 2"
proof -
  have e: "listProducts sampleHelpers sampleStore sampleQuery
   = Inr (Reply 200 (JObj
       [(''success'', JBool True),
        (''filters'', JObj [(''category'', JNull), (''inStock'', JNull), (''minPrice'', JNull),
                            (''maxPrice'', JNull), (''search'', JStr ''lap'')]),
        (''sort'', JNull),
        (''pagination'', JObj [(''totalItems'', JNum 2)]),
        (''data'', JArr [JObj [(''id'', JNum 4), (''name'', JStr ''Laptop Air''),
                               (''description'', JStr ''Light laptop''), (''price'', JNum 999),
                               (''category'', JStr ''Electronics''), (''inStock'', JBool True)]])]))"
    by code_simp
  have c: "createPaginationMeta sampleHelpers t (fst (parsePagination sampleHelpers sampleQuery))
             (fst (snd (parsePagination sampleHelpers sampleQuery)))
           = JObj [(''totalItems'', JNum (of_int t))]" for t
    by (simp add: sampleHelpers_def)
  from list_pipeline_order [of sampleHelpers sampleStore sampleQuery]
  have "length (beforePagination sampleHelpers sampleQuery (products sampleStore)) = 2"
    unfolding e c by (simp add: field_def)
  with e show ?thesis by simp
qed

section \<open>The authentication gate\<close>

text \<open>
  Claim C6. On each of the seven \<open>/api/products\<close> routes, a request with no \<open>x-api-key\<close>
  header is answered Unauthorized (401) and a request whose key is not on the allow-list
  is answered Forbidden (403), whatever the body, the parameters and the store are: the
  body is not validated, and the store is neither read nor written.
\<close>

theorem auth_gate_first:
  "handle H None req s = (s, Inl UnauthorizedError)
   \<and> statusCode UnauthorizedError = 401
   \<and> (k \<notin> set validApiKeys \<longrightarrow> handle H (Some k) req s = (s, Inl ForbiddenError))
   \<and> statusCode ForbiddenError = 403"
  by (simp add: handle_def authenticateApiKey_def statusCode_def)

theorem auth_gate_first_witness:
  "handle sampleHelpers None (PostProduct emptyPayload) initialStore
     = (initialStore, Inl UnauthorizedError)
   \<and> handle sampleHelpers (Some ''not-a-key'') (DeleteProduct ''1'') initialStore
       = (initialStore, Inl ForbiddenError)"
  using auth_gate_first [of sampleHelpers "PostProduct emptyPayload" initialStore "''not-a-key''"]
    auth_gate_first [of sampleHelpers "DeleteProduct ''1''" initialStore "''not-a-key''"]
  by (simp add: validApiKeys_def)

section \<open>A handler with no other request during its wait\<close>

lemma findIndex_Some:
  "findIndex P xs = Some k \<Longrightarrow> k < length xs \<and> P (xs ! k)"
  by (induction xs arbitrary: k) (auto split: if_splits option.splits)

lemma findIndex_None: "findIndex P xs = None \<Longrightarrow> \<forall>x \<in> set xs. \<not> P x"
  by (induction xs) (auto split: if_splits option.splits)

lemma find_findIndex:
  "find P xs = (case findIndex P xs of None \<Rightarrow> None | Some j \<Rightarrow> Some (xs ! j))"
  by (induction xs) (auto split: option.splits)

lemma putProductCheck_index:
  assumes "putProductCheck s idParam b = Inr k"
  shows "findIndex (\<lambda>p. Num (pid p) = parseInt idParam) (products s) = Some k"
  using assms
  by (auto simp: putProductCheck_def findProductIndexById_def Let_def
      split: if_splits option.splits)

lemma deleteProductCheck_index:
  assumes "deleteProductCheck s idParam = Inr k"
  shows "findIndex (\<lambda>p. Num (pid p) = parseInt idParam) (products s) = Some k"
  using assms
  by (auto simp: deleteProductCheck_def findProductIndexById_def Let_def
      split: if_splits option.splits)

lemma putProduct_cases:
  "(\<exists>e. putProductCheck s idParam b = Inl e \<and> putProduct s idParam b = (s, Inl e))
   \<or> (\<exists>k<length (products s). putProductCheck s idParam b = Inr k
         \<and> Num (pid (products s ! k)) = parseInt idParam
         \<and> putProduct s idParam b = writeFields s k b)"
proof (cases "putProductCheck s idParam b")
  case (Inl e)
  then show ?thesis by (simp add: putProduct_def)
next
  case (Inr k)
  from putProductCheck_index [OF Inr] have "k < length (products s)"
    and "Num (pid (products s ! k)) = parseInt idParam"
    using findIndex_Some [of "\<lambda>p. Num (pid p) = parseInt idParam" "products s" k] by auto
  with Inr show ?thesis by (simp add: putProduct_def putProductWrite_def)
qed

lemma deleteProduct_cases:
  "(\<exists>e. deleteProductCheck s idParam = Inl e \<and> deleteProduct s idParam = (s, Inl e))
   \<or> (\<exists>k<length (products s). deleteProductCheck s idParam = Inr k
         \<and> Num (pid (products s ! k)) = parseInt idParam
         \<and> deleteProduct s idParam
             = (s\<lparr>products := take k (products s) @ drop (Suc k) (products s)\<rparr>,
                Inr (Reply 200 (JObj [(''message'', JStr ''Product deleted successfully''),
                                      (''data'', productJson (products s ! k))]))))"
proof (cases "deleteProductCheck s idParam")
  case (Inl e)
  then show ?thesis by (simp add: deleteProduct_def)
next
  case (Inr k)
  from deleteProductCheck_index [OF Inr] have "k < length (products s)"
    and "Num (pid (products s ! k)) = parseInt idParam"
    using findIndex_Some [of "\<lambda>p. Num (pid p) = parseInt idParam" "products s" k] by auto
  with Inr show ?thesis by (simp add: deleteProduct_def deleteProductWrite_def Let_def)
qed

lemma postProduct_cases:
  "postProduct s nm descr pr cat stock = (s, Inl (ConflictError nm))
   \<or> postProduct s nm descr pr cat stock = postProductWrite s nm descr pr cat stock"
  by (simp add: postProduct_def postProductCheck_def split: option.splits)

lemma applyOp_alone:
  "applyOp o' s = (case startOp o' s of Inl e \<Rightarrow> (s, Inl e) | Inr p \<Rightarrow> finishOp p s)"
  by (cases o')
    (auto simp: applyOp_def startOp_def finishOp_def postProduct_def putProduct_def
      deleteProduct_def split: sum.splits)

lemma serve_alone:
  "serve [Arrive o', Timer] (s, []) = ((fst (applyOp o' s), []), [snd (applyOp o' s)])"
  by (simp add: applyOp_alone split: sum.splits prod.splits)

section \<open>Errors leave the store as it was\<close>

lemma postProduct_error: "postProduct s nm descr pr cat stock = (s', Inl e) \<Longrightarrow> s' = s"
  using postProduct_cases [of s nm descr pr cat stock]
  by (auto simp: postProductWrite_def Let_def)

lemma putProduct_error: "putProduct s idParam b = (s', Inl e) \<Longrightarrow> s' = s"
  using putProduct_cases [of s idParam b] by (auto simp: writeFields_def Let_def)

lemma deleteProduct_error: "deleteProduct s idParam = (s', Inl e) \<Longrightarrow> s' = s"
  using deleteProduct_cases [of s idParam] by auto

lemma applyOp_error: "applyOp o' s = (s', Inl e) \<Longrightarrow> s' = s"
  by (cases o')
    (auto simp: applyOp_def split: sum.splits
      dest: postProduct_error putProduct_error deleteProduct_error)

text \<open>
  Claim C9. Whenever a create, an update or a delete signals an error (a malformed ID,
  an unknown ID, a duplicate name, and also a rejected body or key), the store it leaves,
  products and ID counter, is the store it found. This holds of the three operations and
  of every request to a \<open>/api/products\<close> route.
\<close>

theorem error_leaves_store:
  "(applyOp o' s = (s', Inl e) \<longrightarrow> s' = s) \<and> (handle H key req s = (s', Inl e) \<longrightarrow> s' = s)"
  by (cases req) (auto simp: handle_def split: sum.splits dest: applyOp_error)

theorem error_leaves_store_witness:
  "applyOp (Delete ''abc'') initialStore
     = (initialStore, Inl (BadRequestError ''Product ID must be a valid number''))
   \<and> applyOp (Delete ''9'') initialStore = (initialStore, Inl (NotFoundError (Num 9)))
   \<and> handle sampleHelpers (Some ''your-secret-api-key-123'')
        (PostProduct \<lparr>b_name = Some '' laptop PRO '', b_description = Some ''d'',
                       b_price = Some 5, b_category = Some ''X'', b_inStock = Some True\<rparr>)
        initialStore
       = (initialStore, Inl (ConflictError '' laptop PRO ''))"
proof -
  have a: "applyOp (Delete ''abc'') initialStore
     = (fst (applyOp (Delete ''abc'') initialStore),
        Inl (BadRequestError ''Product ID must be a valid number''))"
    by code_simp
  have b: "applyOp (Delete ''9'') initialStore
     = (fst (applyOp (Delete ''9'') initialStore), Inl (NotFoundError (Num 9)))"
    by code_simp
  have c: "handle sampleHelpers (Some ''your-secret-api-key-123'')
        (PostProduct \<lparr>b_name = Some '' laptop PRO '', b_description = Some ''d'',
                       b_price = Some 5, b_category = Some ''X'', b_inStock = Some True\<rparr>)
        initialStore
       = (fst (handle sampleHelpers (Some ''your-secret-api-key-123'')
        (PostProduct \<lparr>b_name = Some '' laptop PRO '', b_description = Some ''d'',
                       b_price = Some 5, b_category = Some ''X'', b_inStock = Some True\<rparr>)
        initialStore), Inl (ConflictError '' laptop PRO ''))"
    by code_simp
  show ?thesis
    using a b c error_leaves_store [THEN conjunct1, rule_format, OF a]
      error_leaves_store [THEN conjunct1, rule_format, OF b]
      error_leaves_store [THEN conjunct2, rule_format, OF c]
    by simp
qed

section \<open>Product IDs\<close>

lemma pid_assignFields: "pid (assignFields b p) = pid p"
  by (simp add: assignFields_def Let_def split: option.splits)

lemma list_all_update:
  "list_all P xs \<Longrightarrow> P y \<Longrightarrow> list_all P (xs[k := y])"
  by (induction xs arbitrary: k) (auto split: nat.splits)

lemma list_all_splice:
  "list_all P xs \<Longrightarrow> list_all P (take k xs @ drop (Suc k) xs)"
  by (auto simp: list_all_iff dest: in_set_takeD in_set_dropD)

lemma postProduct_idsBelow:
  assumes "idsBelowCounter s"
  shows "idsBelowCounter (fst (postProduct s nm descr pr cat stock))"
proof -
  from assms have "list_all (\<lambda>p. pid p < nextId s + 1) (products s)"
    by (auto simp: idsBelowCounter_def list_all_iff)
  then have "idsBelowCounter (fst (postProductWrite s nm descr pr cat stock))"
    by (simp add: postProductWrite_def idsBelowCounter_def newProduct_def Let_def)
  with assms postProduct_cases [of s nm descr pr cat stock] show ?thesis by auto
qed

lemma writeFields_idsBelow:
  assumes "idsBelowCounter s" and "k < length (products s)"
  shows "idsBelowCounter (fst (writeFields s k b))"
proof -
  from assms have "pid (assignFields b (products s ! k)) < nextId s"
    by (simp add: pid_assignFields idsBelowCounter_def list_all_length)
  with assms(1) show ?thesis
    by (simp add: writeFields_def idsBelowCounter_def Let_def list_all_update)
qed

lemma putProduct_idsBelow:
  assumes "idsBelowCounter s"
  shows "idsBelowCounter (fst (putProduct s idParam b))"
  using putProduct_cases [of s idParam b] assms writeFields_idsBelow [of s _ b]
  by auto

lemma deleteProduct_idsBelow:
  assumes "idsBelowCounter s"
  shows "idsBelowCounter (fst (deleteProduct s idParam))"
proof -
  have "idsBelowCounter (s\<lparr>products := take k (products s) @ drop (Suc k) (products s)\<rparr>)"
    for k
    using assms list_all_splice [of "\<lambda>p. pid p < nextId s" "products s" k]
    by (simp add: idsBelowCounter_def del: list_all_append)
  with assms deleteProduct_cases [of s idParam] show ?thesis by auto
qed

lemma applyOp_idsBelow:
  assumes "idsBelowCounter s"
  shows "idsBelowCounter (fst (applyOp o' s))"
  using assms
  by (cases o')
    (auto simp: applyOp_def postProduct_idsBelow putProduct_idsBelow deleteProduct_idsBelow
      split: sum.splits)

lemma postProduct_success:
  assumes "postProduct s nm descr pr cat stock = (s', Inr r)"
  shows "products s' = products s @ [newProduct s nm descr pr cat stock]
       \<and> nextId s' = nextId s + 1
       \<and> body r = JObj [(''message'', JStr ''Product created successfully''),
                         (''data'', productJson (newProduct s nm descr pr cat stock))]"
  using assms postProduct_cases [of s nm descr pr cat stock]
  by (auto simp: postProductWrite_def Let_def)

lemma handler_nextId:
  "nextId s \<le> nextId (fst (postProduct s nm descr pr cat stock))"
  "nextId (fst (putProduct s idParam b)) = nextId s"
  "nextId (fst (deleteProduct s idParam)) = nextId s"
  using postProduct_cases [of s nm descr pr cat stock] putProduct_cases [of s idParam b]
    deleteProduct_cases [of s idParam]
  by (auto simp: postProductWrite_def writeFields_def Let_def)

lemma applyOp_nextId: "nextId s \<le> nextId (fst (applyOp o' s))"
  by (cases o') (auto simp: applyOp_def handler_nextId split: sum.splits)

lemma runOps_nextId: "nextId s \<le> nextId (runOps os s)"
proof (induction os arbitrary: s)
  case Nil
  then show ?case by simp
next
  case (Cons o' os)
  have "nextId s \<le> nextId (fst (applyOp o' s))" by (rule applyOp_nextId)
  also have "\<dots> \<le> nextId (runOps os (fst (applyOp o' s)))" by (rule Cons.IH)
  finally show ?case by simp
qed

lemma runOps_idsBelow: "idsBelowCounter s \<Longrightarrow> idsBelowCounter (runOps os s)"
  by (induction os arbitrary: s) (auto intro: applyOp_idsBelow)

lemma runOps_append: "runOps (xs @ ys) s = runOps ys (runOps xs s)"
  by (induction xs arbitrary: s) auto

lemma idsBelow_initial: "idsBelowCounter initialStore"
  by (simp add: idsBelowCounter_def initialStore_def initialProducts_def)

lemma handle_store:
  "fst (handle H key req s) = s \<or> (\<exists>o'. fst (handle H key req s) = fst (applyOp o' s))"
  by (cases req) (auto simp: handle_def split: sum.splits)

text \<open>
  Claim C5. After any sequence of create, update and delete operations on the initial
  store, a create that succeeds appends one record, the record its response returns, and
  the ID of that record is strictly greater than the ID of every product that was in the
  store at any earlier moment of the sequence, the products deleted since included. So no
  ID is assigned twice, and the ID of a deleted product is not assigned again.
\<close>

theorem created_id_fresh:
  assumes "applyOp (Create b) (runOps (ops1 @ ops2) initialStore) = (s', Inr r)"
    and "q \<in> set (products (runOps ops1 initialStore))"
  shows "\<exists>np. products s' = products (runOps (ops1 @ ops2) initialStore) @ [np]
            \<and> field ''data'' (body r) = Some (productJson np)
            \<and> pid q < pid np"
proof -
  let ?s1 = "runOps ops1 initialStore" and ?s = "runOps (ops1 @ ops2) initialStore"
  from assms(1) obtain nm descr pr cat stock where
    post: "postProduct ?s nm descr pr cat stock = (s', Inr r)"
    by (auto simp: applyOp_def split: sum.splits)
  let ?np = "newProduct ?s nm descr pr cat stock"
  have "idsBelowCounter ?s1" using idsBelow_initial by (rule runOps_idsBelow)
  with assms(2) have "pid q < nextId ?s1" by (simp add: idsBelowCounter_def list_all_iff)
  also have "nextId ?s1 \<le> nextId ?s" unfolding runOps_append by (rule runOps_nextId)
  finally have "pid q < pid ?np" by (simp add: newProduct_def)
  with postProduct_success [OF post] show ?thesis by (auto simp: field_def)
qed

theorem created_id_fresh_witness:
  "applyOp (Create widget) (runOps ([Create widget] @ [Delete ''4'']) initialStore)
     = (\<lparr>products = initialProducts @
           [\<lparr>pid = 5, name = ''Widget'', description = ''d'', price = 999 / 100,
             category = ''X'', inStock = True\<rparr>], nextId = 6\<rparr>,
        Inr (Reply 201 (JObj
          [(''message'', JStr ''Product created successfully''),
           (''data'', JObj [(''id'', JNum 5), (''name'', JStr ''Widget''),
              (''description'', JStr ''d''), (''price'', JNum (999 / 100)),
              (''category'', JStr ''X''), (''inStock'', JBool True)])])))
   \<and> pid (products (runOps [Create widget] initialStore) ! 3) = 4"
proof -
  have run: "applyOp (Create widget) (runOps ([Create widget] @ [Delete ''4'']) initialStore)
     = (\<lparr>products = initialProducts @
           [\<lparr>pid = 5, name = ''Widget'', description = ''d'', price = 999 / 100,
             category = ''X'', inStock = True\<rparr>], nextId = 6\<rparr>,
        Inr (Reply 201 (JObj
          [(''message'', JStr ''Product created successfully''),
           (''data'', JObj [(''id'', JNum 5), (''name'', JStr ''Widget''),
              (''description'', JStr ''d''), (''price'', JNum (999 / 100)),
              (''category'', JStr ''X''), (''inStock'', JBool True)])])))"
    by code_simp
  have live: "products (runOps [Create widget] initialStore) ! 3
      = \<lparr>pid = 4, name = ''Widget'', description = ''d'', price = 999 / 100,
             category = ''X'', inStock = True\<rparr>"
    by code_simp
  have len: "length (products (runOps [Create widget] initialStore)) = 4"
    by code_simp
  have mem: "products (runOps [Create widget] initialStore) ! 3
      \<in> set (products (runOps [Create widget] initialStore))"
    using len by (intro nth_mem) simp
  from created_id_fresh [OF run mem] live run show ?thesis by simp
qed

section \<open>The frame of an update\<close>

lemma findIndex_exists: "x \<in> set xs \<Longrightarrow> P x \<Longrightarrow> \<exists>k. findIndex P xs = Some k"
  by (induction xs) (auto split: option.splits)

lemma assignFields_empty: "assignFields emptyPayload p = p"
  by (simp add: assignFields_def emptyPayload_def)

lemma validate_empty: "validateProductUpdate emptyPayload = Inr ()"
  by (simp add: validateProductUpdate_def updateErrors_def emptyPayload_def)

lemma empty_name: "b_name emptyPayload = None"
  by (simp add: emptyPayload_def)

lemma assignFields_fields:
  "pid (assignFields b p) = pid p
   \<and> name (assignFields b p) = (case b_name b of None \<Rightarrow> name p | Some n \<Rightarrow> n)
   \<and> description (assignFields b p) = (case b_description b of None \<Rightarrow> description p | Some d \<Rightarrow> d)
   \<and> price (assignFields b p) = (case b_price b of None \<Rightarrow> price p | Some x \<Rightarrow> x)
   \<and> category (assignFields b p) = (case b_category b of None \<Rightarrow> category p | Some c \<Rightarrow> c)
   \<and> inStock (assignFields b p) = (case b_inStock b of None \<Rightarrow> inStock p | Some i \<Rightarrow> i)"
  by (simp add: assignFields_def Let_def split: option.splits)

lemma update_outcome:
  assumes "findIndex (\<lambda>p. Num (pid p) = parseInt idParam) (products s) = Some k"
  shows "(\<exists>e. applyOp (Update idParam b) s = (s, Inl e))
       \<or> applyOp (Update idParam b) s = writeFields s k b"
proof -
  have "putProductCheck s idParam b = Inr j \<Longrightarrow> j = k" for j
    using putProductCheck_index [of s idParam b j] assms by simp
  with putProduct_cases [of s idParam b] show ?thesis
    by (auto simp: applyOp_def split: sum.splits)
qed

lemma update_empty:
  assumes "parseInt idParam = Num i"
    and "findIndex (\<lambda>p. Num (pid p) = parseInt idParam) (products s) = Some k"
  shows "applyOp (Update idParam emptyPayload) s = writeFields s k emptyPayload"
proof -
  have "k < length (products s)" using findIndex_Some [OF assms(2)] by simp
  moreover have "putProductCheck s idParam emptyPayload = Inr k"
    using assms by (simp add: putProductCheck_def findProductIndexById_def empty_name)
  ultimately show ?thesis
    by (simp add: applyOp_def validate_empty putProduct_def putProductWrite_def)
qed

text \<open>
  When an update resumes after its wait it writes to the record that is then at the index
  it found before the wait, whichever product that is, and to no other:
\<close>

lemma resume_frame:
  assumes "k < length (products s2)"
  shows "let old = products s2 ! k;
             s' = fst (putProductWrite s2 k b);
             new = products s' ! k
         in nextId s' = nextId s2 \<and> length (products s') = length (products s2)
            \<and> (\<forall>j<length (products s2). j \<noteq> k \<longrightarrow> products s' ! j = products s2 ! j)
            \<and> pid new = pid old
            \<and> (b_name b = None \<longrightarrow> name new = name old)
            \<and> (b_description b = None \<longrightarrow> description new = description old)
            \<and> (b_price b = None \<longrightarrow> price new = price old)
            \<and> (b_category b = None \<longrightarrow> category new = category old)
            \<and> (b_inStock b = None \<longrightarrow> inStock new = inStock old)"
  using assms by (simp add: Let_def putProductWrite_def writeFields_def assignFields_fields)

text \<open>
  Claim C8, as stated: for every existing product ID and every update body, the update
  changes only the fields the body holds of the targeted product and leaves every other
  product unchanged. It fails where requests overlap. A DELETE of product 1 arrives and
  waits; a PUT for product 2 arrives, finds product 2 at index 1 and waits; the DELETE
  resumes and removes product 1, so that product 3 is now at index 1; the PUT resumes and
  writes the price and the stock flag of its body at index 1. Product 2 is as it was, and
  product 3 has the new price.
\<close>

theorem update_overlapped_by_delete:
  "serve [Arrive (Delete ''1''), Arrive (Update ''2'' repricing), Timer, Timer] (initialStore, [])
     = ((\<lparr>products =
            [\<lparr>pid = 2, name = ''Wireless Mouse'', description = ''Ergonomic mouse'',
               price = 2450 / 100, category = ''Accessories'', inStock = True\<rparr>,
             \<lparr>pid = 3, name = ''Coffee Maker'', description = ''12-cup automatic brewer'',
               price = 20, category = ''Home Goods'', inStock = False\<rparr>],
          nextId = 4\<rparr>, []),
        [Inr (Reply 200 (JObj [(''message'', JStr ''Product deleted successfully''),
           (''data'', JObj [(''id'', JNum 1), (''name'', JStr ''Laptop Pro''),
              (''description'', JStr ''High-performance laptop''),
              (''price'', JNum (129999 / 100)), (''category'', JStr ''Electronics''),
              (''inStock'', JBool True)])])),
         Inr (Reply 200 (JObj [(''message'', JStr ''Product update succesfully''),
           (''data'', JObj [(''id'', JNum 3), (''name'', JStr ''Coffee Maker''),
              (''description'', JStr ''12-cup automatic brewer''),
              (''price'', JNum 20), (''category'', JStr ''Home Goods''),
              (''inStock'', JBool False)])]))])"
  by code_simp

text \<open>
  Claim C8, amended. An update that is served with no other request between its arrival
  and its response is the operation \<open>applyOp\<close>. For an ID that parses to the ID of a
  stored product, and every update body, it leaves the ID counter, the number of products
  and every other product as they were; of the targeted product (the first with that ID)
  it leaves the ID and every field that the body does not hold as they were; when it
  succeeds, each field that the body holds has the body's value. An empty body is
  accepted, and the store it leaves is the store it found.
\<close>

theorem update_frame:
  assumes "parseInt idParam = Num i" and "i \<in> pid ` set (products s)"
  shows "serve [Arrive (Update idParam b), Timer] (s, [])
           = ((fst (applyOp (Update idParam b) s), []), [snd (applyOp (Update idParam b) s)])
   \<and> (\<exists>k<length (products s). pid (products s ! k) = i \<and>
     (let old = products s ! k;
          s' = fst (applyOp (Update idParam b) s);
          new = products s' ! k
      in nextId s' = nextId s \<and> length (products s') = length (products s)
         \<and> (\<forall>j<length (products s). j \<noteq> k \<longrightarrow> products s' ! j = products s ! j)
         \<and> pid new = i
         \<and> (b_name b = None \<longrightarrow> name new = name old)
         \<and> (b_description b = None \<longrightarrow> description new = description old)
         \<and> (b_price b = None \<longrightarrow> price new = price old)
         \<and> (b_category b = None \<longrightarrow> category new = category old)
         \<and> (b_inStock b = None \<longrightarrow> inStock new = inStock old)
         \<and> (\<forall>rep. snd (applyOp (Update idParam b) s) = Inr rep \<longrightarrow>
               name new = (case b_name b of None \<Rightarrow> name old | Some n \<Rightarrow> n)
             \<and> description new
                 = (case b_description b of None \<Rightarrow> description old | Some d \<Rightarrow> d)
             \<and> price new = (case b_price b of None \<Rightarrow> price old | Some x \<Rightarrow> x)
             \<and> category new = (case b_category b of None \<Rightarrow> category old | Some c \<Rightarrow> c)
             \<and> inStock new = (case b_inStock b of None \<Rightarrow> inStock old | Some v \<Rightarrow> v))
         \<and> applyOp (Update idParam emptyPayload) s
             = (s, Inr (Reply 200 (JObj [(''message'', JStr ''Product update succesfully''),
                                        (''data'', productJson old)])))))"
proof -
  from assms obtain k where
    k: "findIndex (\<lambda>p. Num (pid p) = parseInt idParam) (products s) = Some k"
    using findIndex_exists [of _ "products s" "\<lambda>p. Num (pid p) = parseInt idParam"] by auto
  then have kl: "k < length (products s)" and kp: "pid (products s ! k) = i"
    using findIndex_Some [OF k] assms(1) by auto
  from update_empty [OF assms(1) k]
  have empty: "applyOp (Update idParam emptyPayload) s
      = (s, Inr (Reply 200 (JObj [(''message'', JStr ''Product update succesfully''),
                                 (''data'', productJson (products s ! k))])))"
    using kl by (simp add: writeFields_def assignFields_empty)
  from update_outcome [OF k, of b]
  have frame: "let old = products s ! k;
          s' = fst (applyOp (Update idParam b) s);
          new = products s' ! k
      in nextId s' = nextId s \<and> length (products s') = length (products s)
         \<and> (\<forall>j<length (products s). j \<noteq> k \<longrightarrow> products s' ! j = products s ! j)
         \<and> pid new = i
         \<and> (b_name b = None \<longrightarrow> name new = name old)
         \<and> (b_description b = None \<longrightarrow> description new = description old)
         \<and> (b_price b = None \<longrightarrow> price new = price old)
         \<and> (b_category b = None \<longrightarrow> category new = category old)
         \<and> (b_inStock b = None \<longrightarrow> inStock new = inStock old)
         \<and> (\<forall>rep. snd (applyOp (Update idParam b) s) = Inr rep \<longrightarrow>
               name new = (case b_name b of None \<Rightarrow> name old | Some n \<Rightarrow> n)
             \<and> description new
                 = (case b_description b of None \<Rightarrow> description old | Some d \<Rightarrow> d)
             \<and> price new = (case b_price b of None \<Rightarrow> price old | Some x \<Rightarrow> x)
             \<and> category new = (case b_category b of None \<Rightarrow> category old | Some c \<Rightarrow> c)
             \<and> inStock new = (case b_inStock b of None \<Rightarrow> inStock old | Some v \<Rightarrow> v))"
  proof
    assume "\<exists>e. applyOp (Update idParam b) s = (s, Inl e)"
    then show ?thesis using kp by (auto simp: Let_def)
  next
    assume "applyOp (Update idParam b) s = writeFields s k b"
    then show ?thesis using kl kp
      by (simp add: Let_def writeFields_def assignFields_fields)
  qed
  from kl kp frame empty serve_alone [of "Update idParam b" s] show ?thesis
    by (auto simp: Let_def)
qed

theorem update_frame_witness:
  "serve [Arrive (Update ''2abc'' repricing), Timer] (initialStore, [])
     = ((initialStore\<lparr>products :=
          [initialProducts ! 0,
           \<lparr>pid = 2, name = ''Wireless Mouse'', description = ''Ergonomic mouse'',
             price = 20, category = ''Accessories'', inStock = False\<rparr>,
           initialProducts ! 2]\<rparr>, []),
        [Inr (Reply 200 (JObj [(''message'', JStr ''Product update succesfully''),
           (''data'', JObj [(''id'', JNum 2), (''name'', JStr ''Wireless Mouse''),
              (''description'', JStr ''Ergonomic mouse''), (''price'', JNum 20),
              (''category'', JStr ''Accessories''), (''inStock'', JBool False)])]))])
   \<and> fst (applyOp (Update ''2abc'' emptyPayload) initialStore) = initialStore"
proof -
  have p: "parseInt ''2abc'' = Num 2" by code_simp
  have m: "(2::int) \<in> pid ` set (products initialStore)"
    by (simp add: initialStore_def initialProducts_def)
  have run: "applyOp (Update ''2abc'' repricing) initialStore
     = (initialStore\<lparr>products :=
          [initialProducts ! 0,
           \<lparr>pid = 2, name = ''Wireless Mouse'', description = ''Ergonomic mouse'',
             price = 20, category = ''Accessories'', inStock = False\<rparr>,
           initialProducts ! 2]\<rparr>,
        Inr (Reply 200 (JObj [(''message'', JStr ''Product update succesfully''),
           (''data'', JObj [(''id'', JNum 2), (''name'', JStr ''Wireless Mouse''),
              (''description'', JStr ''Ergonomic mouse''), (''price'', JNum 20),
              (''category'', JStr ''Accessories''), (''inStock'', JBool False)])])))"
    by code_simp
  from update_frame [OF p m, of repricing]
  have one: "serve [Arrive (Update ''2abc'' repricing), Timer] (initialStore, [])
      = ((fst (applyOp (Update ''2abc'' repricing) initialStore), []),
         [snd (applyOp (Update ''2abc'' repricing) initialStore)])"
    by (rule conjunct1)
  from update_frame [OF p m, of repricing]
  have "fst (applyOp (Update ''2abc'' emptyPayload) initialStore) = initialStore"
    by (auto simp: Let_def)
  with one run show ?thesis by simp
qed

section \<open>The id parameter\<close>

lemma takeWhile_Nil_hd:
  "takeWhile P xs = [] \<longleftrightarrow> (case xs of [] \<Rightarrow> True | c # cs \<Rightarrow> \<not> P c)"
  by (cases xs) auto

lemma toNumber_not_NaN: "toNumber v \<noteq> NaN"
  by (simp add: toNumber_def Let_def)

lemma toNumber_exact: "\<bar>v\<bar> < 2 ^ 53 \<Longrightarrow> toNumber v = Num v"
  by (simp add: toNumber_def)

lemma parseInt_NaN: "parseInt s = NaN \<longleftrightarrow> \<not> startsWithNumber s"
  by (auto simp: parseInt_def startsWithNumber_def Let_def takeWhile_Nil_hd toNumber_not_NaN
      split: prod.splits list.splits)

lemma decimal_digit_plain:
  "isRadixDigit 10 c \<Longrightarrow> \<not> isWhiteSpace c \<and> c \<noteq> CHR ''-'' \<and> c \<noteq> CHR ''+''"
  by (auto simp: isRadixDigit_def digitValue_def isWhiteSpace_def Let_def split: if_splits)

lemma takeWhile_run:
  assumes "list_all P ds" and "rest = [] \<or> \<not> P (hd rest)"
  shows "takeWhile P (ds @ rest) = ds"
  using assms
  by (cases rest)
    (auto simp: list_all_iff takeWhile_append2 intro: takeWhile_eq_all_conv[THEN iffD2])

lemma strip_shape:
  assumes "list_all isWhiteSpace ws" and "sg = [] \<or> sg = ''+'' \<or> sg = ''-''"
    and "\<not> isWhiteSpace c" and "c \<noteq> CHR ''-''" and "c \<noteq> CHR ''+''"
  shows "stripSign (dropWhile isWhiteSpace (ws @ sg @ c # t)) = (signOf sg, c # t)"
proof -
  have w: "\<not> isWhiteSpace CHR ''+''" "\<not> isWhiteSpace CHR ''-''"
    by (simp_all add: isWhiteSpace_def)
  have "dropWhile isWhiteSpace (ws @ sg @ c # t) = dropWhile isWhiteSpace (sg @ c # t)"
    using assms(1) by (simp add: dropWhile_append2 list_all_iff)
  also have "\<dots> = sg @ c # t" using assms(2,3) w by auto
  finally show ?thesis using assms(2,4,5) by (auto simp: stripSign_def signOf_def)
qed

lemma parseInt_decimal:
  assumes "list_all isWhiteSpace ws" and "sg = [] \<or> sg = ''+'' \<or> sg = ''-''"
    and "ds \<noteq> []" and "list_all (isRadixDigit 10) ds"
    and "rest = [] \<or> \<not> isRadixDigit 10 (hd rest)" and "\<not> hexPrefixed (ds @ rest)"
  shows "parseInt (ws @ sg @ ds @ rest) = toNumber (signOf sg * digitsValue 10 ds)"
proof -
  from assms(3) obtain c cs where ds: "ds = c # cs" by (cases ds) auto
  with assms(4) have "isRadixDigit 10 c" by simp
  then have plain: "\<not> isWhiteSpace c" "c \<noteq> CHR ''-''" "c \<noteq> CHR ''+''"
    using decimal_digit_plain by auto
  have "stripSign (dropWhile isWhiteSpace (ws @ sg @ c # (cs @ rest)))
          = (signOf sg, c # (cs @ rest))"
    using assms(1,2) plain by (rule strip_shape)
  then have strip: "stripSign (dropWhile isWhiteSpace (ws @ sg @ ds @ rest))
          = (signOf sg, ds @ rest)"
    by (simp add: ds)
  have run: "takeWhile (isRadixDigit 10) (ds @ rest) = ds"
    using assms(4,5) by (rule takeWhile_run)
  show ?thesis
    unfolding parseInt_def strip using assms(3,6) run by simp
qed

lemma parseInt_hex:
  assumes "list_all isWhiteSpace ws" and "sg = [] \<or> sg = ''+'' \<or> sg = ''-''"
    and "x = CHR ''x'' \<or> x = CHR ''X''"
    and "hs \<noteq> []" and "list_all (isRadixDigit 16) hs"
    and "rest = [] \<or> \<not> isRadixDigit 16 (hd rest)"
  shows "parseInt (ws @ sg @ CHR ''0'' # x # hs @ rest)
           = toNumber (signOf sg * digitsValue 16 hs)"
proof -
  let ?t = "CHR ''0'' # x # (hs @ rest)"
  have zero: "\<not> isWhiteSpace CHR ''0''" "CHR ''0'' \<noteq> CHR ''-''" "CHR ''0'' \<noteq> CHR ''+''"
    by (simp_all add: isWhiteSpace_def)
  have strip: "stripSign (dropWhile isWhiteSpace (ws @ sg @ ?t)) = (signOf sg, ?t)"
    using assms(1,2) zero by (rule strip_shape)
  have hex: "hexPrefixed ?t" using assms(3) by (simp add: hexPrefixed_def)
  have run: "takeWhile (isRadixDigit 16) (hs @ rest) = hs"
    using assms(5,6) by (rule takeWhile_run)
  show ?thesis
    unfolding parseInt_def strip using assms(4) hex run by simp
qed

lemma route_bad_request:
  assumes "k \<in> set validApiKeys" and "validateProductUpdate b = Inr ()"
  shows "isBadRequest (snd (handle H (Some k) (GetProduct idParam) s))
           \<longleftrightarrow> parseInt idParam = NaN"
    and "isBadRequest (snd (handle H (Some k) (PutProduct idParam b) s))
           \<longleftrightarrow> parseInt idParam = NaN"
    and "isBadRequest (snd (handle H (Some k) (DeleteProduct idParam) s))
           \<longleftrightarrow> parseInt idParam = NaN"
proof -
  show "isBadRequest (snd (handle H (Some k) (GetProduct idParam) s))
           \<longleftrightarrow> parseInt idParam = NaN"
    using assms(1)
    by (auto simp: handle_def authenticateApiKey_def getProduct_def isBadRequest_def
        findProductById_def Let_def split: option.splits)
  show "isBadRequest (snd (handle H (Some k) (PutProduct idParam b) s))
           \<longleftrightarrow> parseInt idParam = NaN"
    using assms putProduct_cases [of s idParam b]
    by (auto simp: handle_def authenticateApiKey_def applyOp_def isBadRequest_def
        putProductCheck_def findProductIndexById_def writeFields_def Let_def
        split: option.splits if_splits)
  show "isBadRequest (snd (handle H (Some k) (DeleteProduct idParam) s))
           \<longleftrightarrow> parseInt idParam = NaN"
    using assms(1) deleteProduct_cases [of s idParam]
    by (auto simp: handle_def authenticateApiKey_def applyOp_def isBadRequest_def
        deleteProductCheck_def findProductIndexById_def Let_def
        split: option.splits if_splits)
qed

lemma serves_parsed:
  assumes "k \<in> set validApiKeys" and "validateProductUpdate b = Inr ()"
    and "parseInt idParam = n" and "n \<noteq> NaN"
  shows "servesProduct H k s idParam b n"
proof (cases "findIndex (\<lambda>p. Num (pid p) = n) (products s)")
  case None
  have "handle H (Some k) (GetProduct idParam) s = (s, Inl (NotFoundError n))"
    using assms(1,3,4) None
    by (simp add: handle_def authenticateApiKey_def getProduct_def findProductById_def
        find_findIndex)
  moreover have "handle H (Some k) (PutProduct idParam b) s = (s, Inl (NotFoundError n))"
    using assms None
    by (simp add: handle_def authenticateApiKey_def applyOp_def putProduct_def
        putProductCheck_def findProductIndexById_def)
  moreover have "handle H (Some k) (DeleteProduct idParam) s = (s, Inl (NotFoundError n))"
    using assms(1,3,4) None
    by (simp add: handle_def authenticateApiKey_def applyOp_def deleteProduct_def
        deleteProductCheck_def findProductIndexById_def)
  ultimately show ?thesis using None by (simp add: servesProduct_def)
next
  case (Some j)
  then have jl: "j < length (products s)" by (simp add: findIndex_Some)
  have "handle H (Some k) (GetProduct idParam) s
          = (s, Inr (Reply 200 (productJson (products s ! j))))"
    using assms(1,3,4) Some
    by (simp add: handle_def authenticateApiKey_def getProduct_def findProductById_def
        find_findIndex)
  moreover have "handle H (Some k) (DeleteProduct idParam) s
          = (s\<lparr>products := take j (products s) @ drop (Suc j) (products s)\<rparr>,
             Inr (Reply 200 (JObj [(''message'', JStr ''Product deleted successfully''),
                                   (''data'', productJson (products s ! j))])))"
    using assms(1,3,4) Some jl
    by (simp add: handle_def authenticateApiKey_def applyOp_def deleteProduct_def
        deleteProductCheck_def deleteProductWrite_def findProductIndexById_def Let_def)
  moreover have "handle H (Some k) (PutProduct idParam b) s
        = (s\<lparr>products := (products s)[j := assignFields b (products s ! j)]\<rparr>,
           Inr (Reply 200 (JObj
             [(''message'', JStr ''Product update succesfully''),
              (''data'', productJson (assignFields b (products s ! j)))])))
      \<or> (\<exists>nm. b_name b = Some nm
            \<and> handle H (Some k) (PutProduct idParam b) s = (s, Inl (ConflictError nm)))"
    using assms Some jl
    by (auto simp: handle_def authenticateApiKey_def applyOp_def putProduct_def
        putProductCheck_def putProductWrite_def writeFields_def findProductIndexById_def
        Let_def split: option.splits)
  ultimately show ?thesis using Some by (simp add: servesProduct_def)
qed

text \<open>
  Claim C10, as stated: on the three \<open>/api/products/:id\<close> endpoints BadRequest is
  signalled exactly when the id has no leading number, and an id that is a number
  followed by other characters is treated as that number, so that the request operates on
  the product with that ID. It fails in four ways. The id \<open>0x1\<close> begins with the number 0
  and is followed by \<open>x1\<close>, yet the request is served with product 1, not answered as the
  id \<open>0\<close> is; the id \<open>0xg\<close> begins with the number 0 and is answered BadRequest. A PUT
  with the id \<open>abc\<close>, which has no leading number, and a body that the validation rejects
  is answered with the validation's error, not BadRequest. The id \<open>9007199254740993\<close> is
  treated as the number 9007199254740992. And a PUT with the id \<open>2abc\<close> that overlaps a
  DELETE of product 1 writes to product 3.
\<close>

theorem id_claim_fails:
  "leadingDigits ''0x1'' = ''0''
   \<and> handle sampleHelpers (Some ''your-secret-api-key-123'') (GetProduct ''0'') initialStore
       = (initialStore, Inl (NotFoundError (Num 0)))
   \<and> handle sampleHelpers (Some ''your-secret-api-key-123'') (GetProduct ''0x1'') initialStore
       = (initialStore, Inr (Reply 200 (productJson (initialProducts ! 0))))
   \<and> leadingDigits ''0xg'' = ''0''
   \<and> handle sampleHelpers (Some ''your-secret-api-key-123'') (GetProduct ''0xg'') initialStore
       = (initialStore, Inl (BadRequestError ''Product ID must be a valid number''))
   \<and> leadingDigits ''abc'' = []
   \<and> handle sampleHelpers (Some ''your-secret-api-key-123'') (PutProduct ''abc'' negativePrice)
        initialStore
       = (initialStore, Inl (ValidationError [''price'']))
   \<and> handle sampleHelpers (Some ''your-secret-api-key-123'') (GetProduct ''9007199254740993'')
        initialStore
       = (initialStore, Inl (NotFoundError (Num 9007199254740992)))
   \<and> map (\<lambda>p. (pid p, category p))
        (products (fst (fst (serve
           [Arrive (Delete ''1''), Arrive (Update ''2abc'' recategorising), Timer, Timer]
           (initialStore, [])))))
       = [(2, ''Accessories''), (3, ''Office'')]"
  by code_simp

text \<open>
  Claim C10, amended. Take a request to \<open>GET\<close>, \<open>PUT\<close> or \<open>DELETE /api/products/:id\<close>
  that passes the key check and, for \<open>PUT\<close>, the body validation, and that is served with
  no other request during its wait. BadRequest is signalled exactly when, after leading
  white space and an optional sign, the id neither begins with a decimal digit nor with
  \<open>0x\<close>/\<open>0X\<close>, or begins with \<open>0x\<close>/\<open>0X\<close> and no hexadecimal digit follows. Otherwise the
  id is read as a number: its leading decimal digits in base 10 or, after \<open>0x\<close>/\<open>0X\<close>, its
  leading hexadecimal digits in base 16, with the sign; the number is that integer itself
  below \<open>2 ^ 53\<close> and the nearest double from there on. The request operates on the first
  stored product with that number as its ID when there is one, and is answered NotFound
  when there is none.
\<close>

theorem id_param_parsing:
  assumes "k \<in> set validApiKeys" and "validateProductUpdate b = Inr ()"
  shows "(isBadRequest (snd (handle H (Some k) (GetProduct idParam) s))
            \<longleftrightarrow> \<not> startsWithNumber idParam)
   \<and> (isBadRequest (snd (handle H (Some k) (PutProduct idParam b) s))
            \<longleftrightarrow> \<not> startsWithNumber idParam)
   \<and> (isBadRequest (snd (handle H (Some k) (DeleteProduct idParam) s))
            \<longleftrightarrow> \<not> startsWithNumber idParam)
   \<and> (list_all isWhiteSpace ws \<and> (sg = [] \<or> sg = ''+'' \<or> sg = ''-'')
        \<and> ds \<noteq> [] \<and> list_all (isRadixDigit 10) ds
        \<and> (rest = [] \<or> \<not> isRadixDigit 10 (hd rest)) \<and> \<not> hexPrefixed (ds @ rest) \<longrightarrow>
          servesProduct H k s (ws @ sg @ ds @ rest) b (toNumber (signOf sg * digitsValue 10 ds)))
   \<and> (list_all isWhiteSpace ws \<and> (sg = [] \<or> sg = ''+'' \<or> sg = ''-'')
        \<and> (x = CHR ''x'' \<or> x = CHR ''X'') \<and> hs \<noteq> [] \<and> list_all (isRadixDigit 16) hs
        \<and> (rest = [] \<or> \<not> isRadixDigit 16 (hd rest)) \<longrightarrow>
          servesProduct H k s (ws @ sg @ CHR ''0'' # x # hs @ rest) b
            (toNumber (signOf sg * digitsValue 16 hs)))
   \<and> (\<bar>v\<bar> < 2 ^ 53 \<longrightarrow> toNumber v = Num v)"
proof -
  have dec: "servesProduct H k s (ws @ sg @ ds @ rest) b
               (toNumber (signOf sg * digitsValue 10 ds))"
    if "list_all isWhiteSpace ws" "sg = [] \<or> sg = ''+'' \<or> sg = ''-''" "ds \<noteq> []"
      "list_all (isRadixDigit 10) ds" "rest = [] \<or> \<not> isRadixDigit 10 (hd rest)"
      "\<not> hexPrefixed (ds @ rest)"
    using assms parseInt_decimal [OF that] toNumber_not_NaN by (rule serves_parsed)
  have hex: "servesProduct H k s (ws @ sg @ CHR ''0'' # x # hs @ rest) b
               (toNumber (signOf sg * digitsValue 16 hs))"
    if "list_all isWhiteSpace ws" "sg = [] \<or> sg = ''+'' \<or> sg = ''-''"
      "x = CHR ''x'' \<or> x = CHR ''X''" "hs \<noteq> []" "list_all (isRadixDigit 16) hs"
      "rest = [] \<or> \<not> isRadixDigit 16 (hd rest)"
    using assms parseInt_hex [OF that] toNumber_not_NaN by (rule serves_parsed)
  show ?thesis
    using dec hex toNumber_exact [of v]
    by (simp add: route_bad_request [OF assms] parseInt_NaN)
qed

theorem id_param_parsing_witness:
  "handle sampleHelpers (Some ''your-secret-api-key-123'') (GetProduct '' +1abc'') initialStore
     = (initialStore, Inr (Reply 200 (productJson (initialProducts ! 0))))
   \<and> handle sampleHelpers (Some ''your-secret-api-key-123'') (DeleteProduct ''0X3.'')
        initialStore
     = (initialStore\<lparr>products := [initialProducts ! 0, initialProducts ! 1]\<rparr>,
        Inr (Reply 200 (JObj [(''message'', JStr ''Product deleted successfully''),
                              (''data'', productJson (initialProducts ! 2))])))
   \<and> isBadRequest (snd (handle sampleHelpers (Some ''your-secret-api-key-123'')
        (PutProduct ''abc'' emptyPayload) initialStore))"
proof -
  have key: "''your-secret-api-key-123'' \<in> set validApiKeys" by (simp add: validApiKeys_def)
  have body: "validateProductUpdate emptyPayload = Inr ()" by (rule validate_empty)
  note inst = id_param_parsing [OF key body, of sampleHelpers _ initialStore]
  have a: "list_all isWhiteSpace '' '' \<and> (''+'' = [] \<or> ''+'' = ''+'' \<or> ''+'' = ''-'')
        \<and> ''1'' \<noteq> [] \<and> list_all (isRadixDigit 10) ''1''
        \<and> (''abc'' = [] \<or> \<not> isRadixDigit 10 (hd ''abc'')) \<and> \<not> hexPrefixed (''1'' @ ''abc'')"
    by code_simp
  have b: "list_all isWhiteSpace [] \<and> ([] = [] \<or> [] = ''+'' \<or> [] = ''-'')
        \<and> (CHR ''X'' = CHR ''x'' \<or> CHR ''X'' = CHR ''X'') \<and> ''3'' \<noteq> []
        \<and> list_all (isRadixDigit 16) ''3'' \<and> (''.'' = [] \<or> \<not> isRadixDigit 16 (hd ''.''))"
    by code_simp
  have c: "\<not> startsWithNumber ''abc''" by code_simp
  have va: "toNumber (signOf ''+'' * digitsValue 10 ''1'') = Num 1" by code_simp
  have vb: "toNumber (signOf [] * digitsValue 16 ''3'') = Num 3" by code_simp
  have ia: "findIndex (\<lambda>p. pid p = 1) (products initialStore) = Some 0"
    by code_simp
  have ib: "findIndex (\<lambda>p. pid p = 3) (products initialStore) = Some 2"
    by code_simp
  have pa: "products initialStore ! 0 = initialProducts ! 0"
    and pb: "products initialStore ! 2 = initialProducts ! 2"
    and pc: "take 2 (products initialStore) @ drop (Suc 2) (products initialStore)
               = [initialProducts ! 0, initialProducts ! 1]"
    and pd: "take 2 (products initialStore) @ drop 3 (products initialStore)
               = [initialProducts ! 0, initialProducts ! 1]"
    by (simp_all add: initialStore_def initialProducts_def)
  from inst [of "''abc''" "'' ''" "''+''" "''1''" "''abc''"] a
  have "servesProduct sampleHelpers ''your-secret-api-key-123'' initialStore
          ('' '' @ ''+'' @ ''1'' @ ''abc'') emptyPayload (Num 1)"
    unfolding va by blast
  then have one: "handle sampleHelpers (Some ''your-secret-api-key-123'')
        (GetProduct '' +1abc'') initialStore
      = (initialStore, Inr (Reply 200 (productJson (initialProducts ! 0))))"
    by (simp add: servesProduct_def ia pa)
  from inst [of "''abc''" "[]" "[]" _ "''.''" "CHR ''X''" "''3''"] b
  have "servesProduct sampleHelpers ''your-secret-api-key-123'' initialStore
          ([] @ [] @ CHR ''0'' # CHR ''X'' # ''3'' @ ''.'') emptyPayload (Num 3)"
    unfolding vb by blast
  then have two: "handle sampleHelpers (Some ''your-secret-api-key-123'')
        (DeleteProduct ''0X3.'') initialStore
      = (initialStore\<lparr>products := [initialProducts ! 0, initialProducts ! 1]\<rparr>,
        Inr (Reply 200 (JObj [(''message'', JStr ''Product deleted successfully''),
                              (''data'', productJson (initialProducts ! 2))])))"
    by (simp add: servesProduct_def ib pb pc pd)
  from inst [of "''abc''"] c
  have three: "isBadRequest (snd (handle sampleHelpers (Some ''your-secret-api-key-123'')
        (PutProduct ''abc'' emptyPayload) initialStore))"
    by blast
  from one two three show ?thesis by simp
qed

section \<open>Duplicate names\<close>

lemma find_Some_ex: "list_ex P xs \<Longrightarrow> \<exists>x. find P xs = Some x"
  by (induction xs) auto

text \<open>
  The duplicate check of a create compares the trimmed name of the body with the stored
  names as they are stored. Where every stored name is stored trimmed, as a create stores
  it, the check finds every duplicate:
\<close>

lemma create_conflict_when_trimmed:
  assumes "list_all (\<lambda>p. trim (name p) = name p) (products s)"
    and "list_ex (\<lambda>p. sameName (name p) nm) (products s)"
  shows "postProduct s nm descr pr cat stock = (s, Inl (ConflictError nm))"
proof -
  from assms have "list_ex (\<lambda>p. toLowerCase (name p) = toLowerCase (trim nm)) (products s)"
    by (auto simp: list_all_iff list_ex_iff sameName_def)
  then obtain d where
    "find (\<lambda>p. toLowerCase (name p) = toLowerCase (trim nm)) (products s) = Some d"
    using find_Some_ex by blast
  then show ?thesis by (simp add: postProduct_def postProductCheck_def)
qed

lemma last_dropWhile: "dropWhile P xs \<noteq> [] \<Longrightarrow> last (dropWhile P xs) = last xs"
  by (induction xs) (auto split: if_splits)

lemma dropWhile_fixed: "(xs = [] \<or> \<not> P (hd xs)) \<Longrightarrow> dropWhile P xs = xs"
  by (cases xs) auto

lemma trim_trim: "trim (trim s) = trim s"
proof -
  let ?t = "dropWhile isWhiteSpace s"
  let ?u = "dropWhile isWhiteSpace (rev ?t)"
  have a: "dropWhile isWhiteSpace (rev ?u) = rev ?u"
  proof (cases "?u = []")
    case True
    show ?thesis unfolding True by simp
  next
    case False
    then have "last ?u = last (rev ?t)" by (rule last_dropWhile)
    moreover from False have "?t \<noteq> []" by (metis dropWhile.simps(1) rev.simps(1))
    ultimately have "hd (rev ?u) = hd ?t" using False by (simp add: hd_rev last_rev)
    moreover have "\<not> isWhiteSpace (hd ?t)" using \<open>?t \<noteq> []\<close> by (rule hd_dropWhile)
    ultimately show ?thesis by (intro dropWhile_fixed) simp
  qed
  show ?thesis unfolding trim_def a by simp
qed


lemma find_None_all: "find P xs = None \<Longrightarrow> list_all (\<lambda>x. \<not> P x) xs"
  by (induction xs) (auto split: if_splits)

lemma postProduct_names:
  assumes "namesTrimmed s" and "uniqueNames s"
  shows "namesTrimmed (fst (postProduct s nm descr pr cat stock))
       \<and> uniqueNames (fst (postProduct s nm descr pr cat stock))"
proof (cases "find (\<lambda>p. toLowerCase (name p) = toLowerCase (trim nm)) (products s)")
  case None
  then have "list_all (\<lambda>p. toLowerCase (name p) \<noteq> toLowerCase (trim nm)) (products s)"
    by (rule find_None_all)
  with assms(1) have "toLowerCase (trim nm) \<notin> (\<lambda>p. toLowerCase (trim (name p))) ` set (products s)"
    by (auto simp: namesTrimmed_def list_all_iff)
  with assms None show ?thesis
    by (simp add: postProduct_def postProductCheck_def postProductWrite_def namesTrimmed_def
        uniqueNames_def newProduct_def Let_def trim_trim)
next
  case (Some d)
  with assms show ?thesis by (simp add: postProduct_def postProductCheck_def)
qed

lemma assignFields_name: "b_name b = None \<Longrightarrow> name (assignFields b p) = name p"
  by (simp add: assignFields_def Let_def split: option.splits)

lemma map_update_same: "k < length xs \<Longrightarrow> f y = f (xs ! k) \<Longrightarrow> map f (xs[k := y]) = map f xs"
  by (simp add: map_update list_update_same_conv)

lemma distinct_splice: "distinct xs \<Longrightarrow> distinct (take k xs @ drop (Suc k) xs)"
proof -
  have "distinct (take k xs @ drop k xs)" if "distinct xs" using that by simp
  then have "distinct (take k xs) \<and> distinct (drop k xs) \<and> set (take k xs) \<inter> set (drop k xs) = {}"
    if "distinct xs" using that by (simp only: distinct_append)
  moreover have "set (drop (Suc k) xs) \<subseteq> set (drop k xs)"
    by (rule set_drop_subset_set_drop) simp
  ultimately show "distinct xs \<Longrightarrow> distinct (take k xs @ drop (Suc k) xs)"
    by (auto simp: distinct_drop)
qed

lemma writeFields_names:
  assumes "b_name b = None" and "k < length (products s)"
  shows "map name (products (fst (writeFields s k b))) = map name (products s)"
  using assms by (simp add: writeFields_def Let_def map_update_same assignFields_name)

lemma putProduct_names:
  assumes "b_name b = None"
  shows "map name (products (fst (putProduct s idParam b))) = map name (products s)"
  using putProduct_cases [of s idParam b] writeFields_names [OF assms, of _ s]
  by auto

lemma names_cong:
  assumes "map name (products s') = map name (products s)"
  shows "namesTrimmed s' = namesTrimmed s \<and> uniqueNames s' = uniqueNames s"
proof -
  have t: "namesTrimmed x = list_all (\<lambda>n. trim n = n) (map name (products x))" for x
    by (simp add: namesTrimmed_def list_all_iff)
  have u: "uniqueNames x = distinct (map (\<lambda>n. toLowerCase (trim n)) (map name (products x)))" for x
    by (simp add: uniqueNames_def comp_def)
  show ?thesis unfolding t u assms by simp
qed

lemma deleteProduct_names:
  assumes "namesTrimmed s" and "uniqueNames s"
  shows "namesTrimmed (fst (deleteProduct s idParam)) \<and> uniqueNames (fst (deleteProduct s idParam))"
proof -
  have "namesTrimmed (s\<lparr>products := take k (products s) @ drop (Suc k) (products s)\<rparr>)
      \<and> uniqueNames (s\<lparr>products := take k (products s) @ drop (Suc k) (products s)\<rparr>)" for k
    using assms distinct_splice [of "map (\<lambda>p. toLowerCase (trim (name p))) (products s)" k]
    by (simp add: namesTrimmed_def uniqueNames_def list_all_splice take_map drop_map
        del: list_all_append)
  then show ?thesis
    using assms deleteProduct_cases [of s idParam] by auto
qed

lemma applyOp_names:
  assumes "keepsNames o'" and "namesTrimmed s \<and> uniqueNames s"
  shows "namesTrimmed (fst (applyOp o' s)) \<and> uniqueNames (fst (applyOp o' s))"
proof (cases o')
  case (Create b)
  with assms(2) show ?thesis
    by (auto simp: applyOp_def postProduct_names split: sum.splits)
next
  case (Update idParam b)
  with assms(1) have "b_name b = None" by (simp add: keepsNames_def)
  then have "map name (products (fst (putProduct s idParam b))) = map name (products s)"
    by (rule putProduct_names)
  then have "namesTrimmed (fst (putProduct s idParam b)) \<and> uniqueNames (fst (putProduct s idParam b))"
    using assms(2) names_cong by blast
  with assms(2) Update show ?thesis
    by (simp add: applyOp_def split: sum.splits)
next
  case (Delete idParam)
  with assms(2) show ?thesis by (simp add: applyOp_def deleteProduct_names)
qed

lemma names_initial: "namesTrimmed initialStore \<and> uniqueNames initialStore"
  by code_simp

text \<open>
  Creates and deletes, and updates whose body holds no name, keep the stored names
  trimmed and pairwise different, letter case ignored:
\<close>

lemma unique_names_without_renaming:
  assumes "list_all keepsNames os"
  shows "uniqueNames (runOps os initialStore)"
proof -
  have "namesTrimmed (runOps os s) \<and> uniqueNames (runOps os s)"
    if "list_all keepsNames os" and "namesTrimmed s \<and> uniqueNames s" for s
    using that
  proof (induction os arbitrary: s)
    case Nil
    then show ?case by simp
  next
    case (Cons o' os)
    from Cons.prems have "namesTrimmed (fst (applyOp o' s)) \<and> uniqueNames (fst (applyOp o' s))"
      by (intro applyOp_names) auto
    with Cons.prems Cons.IH show ?case by simp
  qed
  with assms names_initial show ?thesis by blast
qed

text \<open>
  Claim C1 says that a create whose name matches the name of a stored product, letter
  case ignored and both trimmed, yields Conflict and appends nothing. An update stores
  the name of its body as it is sent, not trimmed. After product 1 was renamed to
  \<open>Widget\<close> followed by a space, a create of \<open>Widget\<close> is answered 201 and appends a
  fourth record beside it.
\<close>

theorem create_beside_padded_name:
  "applyOp (Update ''1'' paddedName) initialStore
     = (initialStore\<lparr>products :=
          [\<lparr>pid = 1, name = ''Widget '', description = ''High-performance laptop'',
             price = 129999 / 100, category = ''Electronics'', inStock = True\<rparr>,
           initialProducts ! 1, initialProducts ! 2]\<rparr>,
        Inr (Reply 200 (JObj [(''message'', JStr ''Product update succesfully''),
           (''data'', JObj [(''id'', JNum 1), (''name'', JStr ''Widget ''),
              (''description'', JStr ''High-performance laptop''),
              (''price'', JNum (129999 / 100)), (''category'', JStr ''Electronics''),
              (''inStock'', JBool True)])])))
   \<and> sameName ''Widget '' ''Widget''
   \<and> applyOp (Create widget) (runOps [Update ''1'' paddedName] initialStore)
     = (\<lparr>products =
          [\<lparr>pid = 1, name = ''Widget '', description = ''High-performance laptop'',
             price = 129999 / 100, category = ''Electronics'', inStock = True\<rparr>,
           initialProducts ! 1, initialProducts ! 2,
           \<lparr>pid = 4, name = ''Widget'', description = ''d'', price = 999 / 100,
             category = ''X'', inStock = True\<rparr>],
         nextId = 5\<rparr>,
        Inr (Reply 201 (JObj [(''message'', JStr ''Product created successfully''),
           (''data'', JObj [(''id'', JNum 4), (''name'', JStr ''Widget''),
              (''description'', JStr ''d''), (''price'', JNum (999 / 100)),
              (''category'', JStr ''X''), (''inStock'', JBool True)])])))"
  by code_simp

text \<open>
  Claim C2 says that no two products of a store reached from the initial one have the
  same name, letter case ignored. The duplicate check of an update compares the trimmed
  name of the body with the stored names as they are stored, and the update then stores
  the name not trimmed. Two updates with the same name, a space after it, both succeed
  and leave products 1 and 2 with one and the same name.
\<close>

theorem two_products_one_name:
  "map (\<lambda>p. (pid p, name p))
       (products (runOps [Update ''1'' paddedName, Update ''2'' paddedName] initialStore))
     = [(1, ''Widget ''), (2, ''Widget ''), (3, ''Coffee Maker'')]
   \<and> snd (applyOp (Update ''2'' paddedName) (runOps [Update ''1'' paddedName] initialStore))
     = Inr (Reply 200 (JObj [(''message'', JStr ''Product update succesfully''),
           (''data'', JObj [(''id'', JNum 2), (''name'', JStr ''Widget ''),
              (''description'', JStr ''Ergonomic mouse''),
              (''price'', JNum (2450 / 100)), (''category'', JStr ''Accessories''),
              (''inStock'', JBool True)])]))
   \<and> \<not> uniqueNames (runOps [Update ''1'' paddedName, Update ''2'' paddedName] initialStore)"
  by code_simp

section \<open>The response envelope\<close>

lemma collection_replies_enveloped:
  "(listProducts H s qry = Inr r \<longrightarrow> field ''success'' (body r) = Some (JBool True))
   \<and> (searchProducts H s qry = Inr r \<longrightarrow> field ''success'' (body r) = Some (JBool True))
   \<and> (productStats H s qry = Inr r \<longrightarrow> field ''success'' (body r) = Some (JBool True))"
  by (auto simp: listProducts_def searchProducts_def productStats_def field_def Let_def
      split: prod.splits option.splits if_splits)

lemma record_replies_bare:
  "(getProduct s idParam = Inr r \<longrightarrow> field ''success'' (body r) = None)
   \<and> (applyOp o' s = (s', Inr r) \<longrightarrow> field ''success'' (body r) = None)"
proof -
  have get: "getProduct s idParam = Inr r \<longrightarrow> field ''success'' (body r) = None"
    by (auto simp: getProduct_def findProductById_def productJson_def field_def Let_def
        split: option.splits if_splits)
  have post: "postProduct s nm descr pr cat stock = (s', Inr r)
        \<longrightarrow> field ''success'' (body r) = None" for nm descr pr cat stock
    using postProduct_cases [of s nm descr pr cat stock]
    by (auto simp: postProductWrite_def field_def Let_def)
  have put: "putProduct s i b = (s', Inr r) \<longrightarrow> field ''success'' (body r) = None" for i b
    using putProduct_cases [of s i b] by (auto simp: writeFields_def field_def Let_def)
  have del: "deleteProduct s i = (s', Inr r) \<longrightarrow> field ''success'' (body r) = None" for i
    using deleteProduct_cases [of s i] by (auto simp: field_def)
  show ?thesis
    using get post put del by (cases o') (auto simp: applyOp_def split: sum.splits)
qed

text \<open>
  Claim C3 says that every successful response is an envelope \<open>{success: true, ...}\<close>,
  that of \<open>GET /api/products/:id\<close> included. The handler of that route sends the stored
  record itself: the response to a request for product 1 has the six fields of the
  record and no \<open>success\<close> field. The response to a create has a message and the record,
  and no \<open>success\<close> field either.
\<close>

theorem get_product_reply_bare:
  "getProduct initialStore ''1''
     = Inr (Reply 200 (JObj
         [(''id'', JNum 1), (''name'', JStr ''Laptop Pro''),
          (''description'', JStr ''High-performance laptop''), (''price'', JNum (129999 / 100)),
          (''category'', JStr ''Electronics''), (''inStock'', JBool True)]))
   \<and> field ''success'' (JObj
         [(''id'', JNum 1), (''name'', JStr ''Laptop Pro''),
          (''description'', JStr ''High-performance laptop''), (''price'', JNum (129999 / 100)),
          (''category'', JStr ''Electronics''), (''inStock'', JBool True)]) = None
   \<and> snd (applyOp (Create widget) initialStore)
     = Inr (Reply 201 (JObj [(''message'', JStr ''Product created successfully''),
           (''data'', JObj [(''id'', JNum 4), (''name'', JStr ''Widget''),
              (''description'', JStr ''d''), (''price'', JNum (999 / 100)),
              (''category'', JStr ''X''), (''inStock'', JBool True)])]))
   \<and> field ''success'' (JObj [(''message'', JStr ''Product created successfully''),
           (''data'', JObj [(''id'', JNum 4), (''name'', JStr ''Widget''),
              (''description'', JStr ''d''), (''price'', JNum (999 / 100)),
              (''category'', JStr ''X''), (''inStock'', JBool True)])]) = None"
  by code_simp

end
